theory Spec2Isabelle
  imports Main "HOL-Library.Word"
begin

section \<open>Solidity values\<close>

text \<open>
  The contracts are compiled with Solidity 0.8.24: \<open>uint256\<close> arithmetic is checked,
  an overflow or underflow reverts the call with a panic. A call either reverts with
  an error, and then leaves the storage as it was, or returns the new storage.
\<close>

type_synonym uint256 = "256 word"
type_synonym uint8 = "8 word"
type_synonym address = "160 word"
type_synonym bytes32 = "256 word"

datatype error =
    Revert string
  | Panic_arithmetic
  | AccessControlUnauthorizedAccount
  | OwnableUnauthorizedAccount
  | ERC721InvalidSender
  | ERC721InvalidReceiver
  | ERC20InsufficientBalance
  | ERC20InsufficientAllowance
  | ERC20InvalidSender
  | ERC20InvalidReceiver
  | ERC20InvalidApprover
  | ERC20InvalidSpender
  | ERC4626ExceededMaxWithdraw
  | ERC4626ExceededMaxRedeem
  | MathOverflowedMulDiv
  | Panic_division_by_zero

definition checked_add :: "uint256 \<Rightarrow> uint256 \<Rightarrow> error + uint256" where
  "checked_add a b = (if unat a + unat b < 2 ^ 256 then Inr (a + b) else Inl Panic_arithmetic)"

definition checked_sub :: "uint256 \<Rightarrow> uint256 \<Rightarrow> error + uint256" where
  "checked_sub a b = (if b \<le> a then Inr (a - b) else Inl Panic_arithmetic)"

definition checked_mul :: "uint256 \<Rightarrow> uint256 \<Rightarrow> error + uint256" where
  "checked_mul a b = (if unat a * unat b < 2 ^ 256 then Inr (a * b) else Inl Panic_arithmetic)"

section \<open>InvoiceNFT.sol\<close>

datatype InvoiceStatus = PENDING | VERIFIED | FUNDED | PAID | DEFAULTED | PARTIAL_PAID

record Invoice =
  tokenId :: uint256
  faceValue :: uint256
  discountedValue :: uint256
  maturityDate :: uint256
  debtor :: address
  invoiceHash :: bytes32
  status :: InvoiceStatus
  paidAmount :: uint256
  issuedAt :: uint256
  issuer :: address
  debtorName :: string
  discountRate :: uint256

datatype role = DEFAULT_ADMIN_ROLE | ISSUER_ROLE | ORACLE_ROLE | VAULT_ROLE

text \<open>
  The storage of the contract. \<open>owners\<close> is the owner table of the inherited ERC721
  (\<open>_ownerOf\<close> reads it, the zero address meaning that the token does not exist) and
  \<open>roles\<close> the role table of the inherited AccessControl (\<open>hasRole\<close>).
\<close>

record InvoiceNFT =
  invoices :: "uint256 \<Rightarrow> Invoice"
  usedInvoiceHashes :: "bytes32 \<Rightarrow> bool"
  nextTokenId :: uint256
  totalInvoicesFunded :: uint256
  totalValueFunded :: uint256
  totalValuePaid :: uint256
  totalDefaulted :: uint256
  owners :: "uint256 \<Rightarrow> address"
  roles :: "role \<Rightarrow> address \<Rightarrow> bool"

definition zero_Invoice :: Invoice where
  "zero_Invoice = \<lparr> tokenId = 0, faceValue = 0, discountedValue = 0, maturityDate = 0,
     debtor = 0, invoiceHash = 0, status = PENDING, paidAmount = 0, issuedAt = 0,
     issuer = 0, debtorName = [], discountRate = 0 \<rparr>"

text \<open>The constructor: empty storage, token ids from 1, the deployer is the admin.\<close>

definition InvoiceNFT_constructor :: "address \<Rightarrow> InvoiceNFT" where
  "InvoiceNFT_constructor msg_sender =
     \<lparr> invoices = (\<lambda>_. zero_Invoice), usedInvoiceHashes = (\<lambda>_. False), nextTokenId = 1,
       totalInvoicesFunded = 0, totalValueFunded = 0, totalValuePaid = 0, totalDefaulted = 0,
       owners = (\<lambda>_. 0),
       roles = (\<lambda>r a. r = DEFAULT_ADMIN_ROLE \<and> a = msg_sender) \<rparr>"

text \<open>
  \<open>mintInvoice\<close>. The last argument is the answer of the ERC721 receiver check that
  \<open>_safeMint\<close> makes on \<open>msg.sender\<close> (true for an externally owned account).
  The storage is written before \<open>_safeMint\<close> runs, and a revert there undoes it.
\<close>

definition mintInvoice ::
  "InvoiceNFT \<Rightarrow> address \<Rightarrow> uint256 \<Rightarrow> uint256 \<Rightarrow> uint256 \<Rightarrow> address \<Rightarrow> bytes32 \<Rightarrow> string
     \<Rightarrow> uint256 \<Rightarrow> bool \<Rightarrow> error + (InvoiceNFT \<times> uint256)" where
  "mintInvoice s msg_sender block_timestamp p_faceValue p_maturityDate p_debtor p_invoiceHash
       p_debtorName p_discountRate receiverAccepts =
    (if \<not> roles s ISSUER_ROLE msg_sender then Inl AccessControlUnauthorizedAccount
     else if \<not> (p_maturityDate > block_timestamp) then Inl (Revert ''Maturity must be in future'')
     else if \<not> (p_faceValue > 0) then Inl (Revert ''Face value must be positive'')
     else if \<not> (p_debtor \<noteq> 0) then Inl (Revert ''Invalid debtor address'')
     else if \<not> (p_invoiceHash \<noteq> 0) then Inl (Revert ''Invalid invoice hash'')
     else if \<not> (\<not> usedInvoiceHashes s p_invoiceHash) then Inl (Revert ''Invoice already exists'')
     else if \<not> (p_discountRate > 0 \<and> p_discountRate \<le> 5000)
       then Inl (Revert ''Discount rate must be 0-50%'')
     else
       (let tid = nextTokenId s in
        case checked_add (nextTokenId s) 1 of Inl e \<Rightarrow> Inl e | Inr nextId \<Rightarrow>
        case checked_sub 10000 p_discountRate of Inl e \<Rightarrow> Inl e | Inr keep \<Rightarrow>
        case checked_mul p_faceValue keep of Inl e \<Rightarrow> Inl e | Inr product \<Rightarrow>
        (let dv = product div 10000;
             inv = \<lparr> tokenId = tid, faceValue = p_faceValue, discountedValue = dv,
                     maturityDate = p_maturityDate, debtor = p_debtor,
                     invoiceHash = p_invoiceHash, status = PENDING, paidAmount = 0,
                     issuedAt = block_timestamp, issuer = msg_sender,
                     debtorName = p_debtorName, discountRate = p_discountRate \<rparr>
         in if msg_sender = 0 then Inl ERC721InvalidReceiver
            else if owners s tid \<noteq> 0 then Inl ERC721InvalidSender
            else if \<not> receiverAccepts then Inl ERC721InvalidReceiver
            else Inr (s\<lparr> nextTokenId := nextId,
                         invoices := (invoices s)(tid := inv),
                         usedInvoiceHashes := (usedInvoiceHashes s)(p_invoiceHash := True),
                         owners := (owners s)(tid := msg_sender) \<rparr>, tid))))"

definition verifyInvoice :: "InvoiceNFT \<Rightarrow> address \<Rightarrow> uint256 \<Rightarrow> uint256 \<Rightarrow> error + InvoiceNFT" where
  "verifyInvoice s msg_sender block_timestamp p_tokenId =
    (if \<not> roles s ORACLE_ROLE msg_sender then Inl AccessControlUnauthorizedAccount
     else if \<not> (owners s p_tokenId \<noteq> 0) then Inl (Revert ''Invoice does not exist'')
     else let invoice = invoices s p_tokenId in
       if \<not> (status invoice = PENDING) then Inl (Revert ''Invoice not in PENDING status'')
       else if \<not> (block_timestamp < maturityDate invoice) then Inl (Revert ''Invoice already matured'')
       else Inr (s\<lparr> invoices := (invoices s)(p_tokenId := invoice\<lparr> status := VERIFIED \<rparr>) \<rparr>))"

definition markAsFunded :: "InvoiceNFT \<Rightarrow> address \<Rightarrow> uint256 \<Rightarrow> error + InvoiceNFT" where
  "markAsFunded s msg_sender p_tokenId =
    (if \<not> roles s VAULT_ROLE msg_sender then Inl AccessControlUnauthorizedAccount
     else if \<not> (owners s p_tokenId \<noteq> 0) then Inl (Revert ''Invoice does not exist'')
     else let invoice = invoices s p_tokenId in
       if \<not> (status invoice = VERIFIED) then Inl (Revert ''Invoice not verified'')
       else
         case checked_add (totalInvoicesFunded s) 1 of Inl e \<Rightarrow> Inl e | Inr n \<Rightarrow>
         case checked_add (totalValueFunded s) (faceValue invoice) of Inl e \<Rightarrow> Inl e | Inr v \<Rightarrow>
           Inr (s\<lparr> invoices := (invoices s)(p_tokenId := invoice\<lparr> status := FUNDED \<rparr>),
                    totalInvoicesFunded := n, totalValueFunded := v \<rparr>))"

definition recordPayment :: "InvoiceNFT \<Rightarrow> address \<Rightarrow> uint256 \<Rightarrow> uint256 \<Rightarrow> error + InvoiceNFT" where
  "recordPayment s msg_sender p_tokenId p_amount =
    (if \<not> roles s ORACLE_ROLE msg_sender then Inl AccessControlUnauthorizedAccount
     else if \<not> (owners s p_tokenId \<noteq> 0) then Inl (Revert ''Invoice does not exist'')
     else if \<not> (p_amount > 0) then Inl (Revert ''Payment amount must be positive'')
     else let invoice = invoices s p_tokenId in
       if \<not> (status invoice = FUNDED \<or> status invoice = PARTIAL_PAID)
         then Inl (Revert ''Invoice not in valid state for payment'')
       else
         case checked_add (paidAmount invoice) p_amount of Inl e \<Rightarrow> Inl e | Inr paid \<Rightarrow>
         if \<not> (paid \<le> faceValue invoice) then Inl (Revert ''Payment exceeds face value'')
         else
           case checked_add (totalValuePaid s) p_amount of Inl e \<Rightarrow> Inl e | Inr tot \<Rightarrow>
           (let newStatus = (if paid \<ge> faceValue invoice then PAID else PARTIAL_PAID)
            in Inr (s\<lparr> invoices :=
                          (invoices s)(p_tokenId := invoice\<lparr> paidAmount := paid, status := newStatus \<rparr>),
                        totalValuePaid := tot \<rparr>)))"

definition markAsDefaulted :: "InvoiceNFT \<Rightarrow> address \<Rightarrow> uint256 \<Rightarrow> uint256 \<Rightarrow> error + InvoiceNFT" where
  "markAsDefaulted s msg_sender block_timestamp p_tokenId =
    (if \<not> roles s ORACLE_ROLE msg_sender then Inl AccessControlUnauthorizedAccount
     else if \<not> (owners s p_tokenId \<noteq> 0) then Inl (Revert ''Invoice does not exist'')
     else let invoice = invoices s p_tokenId in
       if \<not> (block_timestamp > maturityDate invoice) then Inl (Revert ''Invoice not yet matured'')
       else if \<not> (status invoice \<noteq> PAID) then Inl (Revert ''Invoice already paid'')
       else if \<not> (status invoice \<noteq> DEFAULTED) then Inl (Revert ''Already marked as defaulted'')
       else
         case checked_sub (faceValue invoice) (paidAmount invoice) of Inl e \<Rightarrow> Inl e
         | Inr amountUnpaid \<Rightarrow>
         case checked_add (totalDefaulted s) amountUnpaid of Inl e \<Rightarrow> Inl e | Inr tot \<Rightarrow>
           Inr (s\<lparr> invoices := (invoices s)(p_tokenId := invoice\<lparr> status := DEFAULTED \<rparr>),
                    totalDefaulted := tot \<rparr>))"

definition getInvoice :: "InvoiceNFT \<Rightarrow> uint256 \<Rightarrow> error + Invoice" where
  "getInvoice s p_tokenId =
    (if \<not> (owners s p_tokenId \<noteq> 0) then Inl (Revert ''Invoice does not exist'')
     else Inr (invoices s p_tokenId))"


subsection \<open>Transactions on the registry\<close>

text \<open>
  The calls that change the storage of the contract. Beside its own five functions these
  are the role management of AccessControl and the transfers of ERC721, which the contract
  inherits unchanged: \<open>SetRole\<close> stands for \<open>grantRole\<close>, \<open>revokeRole\<close> and
  \<open>renounceRole\<close>, \<open>TransferToken\<close> for \<open>transferFrom\<close> and \<open>safeTransferFrom\<close>. For
  these inherited calls the caller's authorisation is left open (every caller is let
  through), so the states reached here include every state the contract can reach.
\<close>

datatype call =
    MintInvoice address uint256 uint256 uint256 address bytes32 string uint256 bool
  | VerifyInvoice address uint256 uint256
  | MarkAsFunded address uint256
  | RecordPayment address uint256 uint256
  | MarkAsDefaulted address uint256 uint256
  | SetRole role address bool
  | TransferToken address uint256

fun exec :: "call \<Rightarrow> InvoiceNFT \<Rightarrow> error + InvoiceNFT" where
  "exec (MintInvoice sender now fv mat deb h nm rate acc) s =
     (case mintInvoice s sender now fv mat deb h nm rate acc of
        Inl e \<Rightarrow> Inl e | Inr (s', _) \<Rightarrow> Inr s')"
| "exec (VerifyInvoice sender now tid) s = verifyInvoice s sender now tid"
| "exec (MarkAsFunded sender tid) s = markAsFunded s sender tid"
| "exec (RecordPayment sender tid amount) s = recordPayment s sender tid amount"
| "exec (MarkAsDefaulted sender now tid) s = markAsDefaulted s sender now tid"
| "exec (SetRole r account b) s = Inr (s\<lparr> roles := (roles s)(r := (roles s r)(account := b)) \<rparr>)"
| "exec (TransferToken to tid) s =
     (if to = 0 then Inl ERC721InvalidReceiver
      else if owners s tid = 0 then Inl ERC721InvalidSender
      else Inr (s\<lparr> owners := (owners s)(tid := to) \<rparr>))"

text \<open>A reverted transaction leaves the storage as it was.\<close>

definition apply_call :: "InvoiceNFT \<Rightarrow> call \<Rightarrow> InvoiceNFT" where
  "apply_call s c = (case exec c s of Inl _ \<Rightarrow> s | Inr s' \<Rightarrow> s')"

definition run :: "call list \<Rightarrow> InvoiceNFT \<Rightarrow> InvoiceNFT" where
  "run cs s = foldl apply_call s cs"

text \<open>A script of calls each of which has to go through: it stops at the first revert.\<close>

fun exec_all :: "call list \<Rightarrow> InvoiceNFT \<Rightarrow> error + InvoiceNFT" where
  "exec_all [] s = Inr s"
| "exec_all (c # cs) s = (case exec c s of Inl e \<Rightarrow> Inl e | Inr s' \<Rightarrow> exec_all cs s')"

text \<open>
  The set-up of scenario A: account 1 deploys the registry and is the issuer, account 2
  is the oracle, account 3 the vault; at time 10 the issuer submits an invoice of face
  value 100000 at 500 basis points, due at time 1000.
\<close>

definition scenario_calls :: "call list" where
  "scenario_calls =
     [SetRole ISSUER_ROLE 1 True, SetRole ORACLE_ROLE 2 True, SetRole VAULT_ROLE 3 True,
      MintInvoice 1 10 100000 1000 7 9 ''ACME'' 500 True]"

text \<open>
  The invariant of the registry: no invoice has been paid beyond its face value, and an
  existing invoice paid in full has the status \<open>PAID\<close>.
\<close>

definition registry_inv :: "InvoiceNFT \<Rightarrow> bool" where
  "registry_inv s \<longleftrightarrow>
     (\<forall>i. paidAmount (invoices s i) \<le> faceValue (invoices s i)) \<and>
     (\<forall>i. owners s i \<noteq> 0 \<longrightarrow> paidAmount (invoices s i) = faceValue (invoices s i)
            \<longrightarrow> status (invoices s i) = PAID)"

section \<open>KYCGate.sol\<close>

record KYCData =
  kyc_isVerified :: bool
  verifiedAt :: uint256
  expiresAt :: uint256
  countryHash :: bytes32
  riskScore :: uint8
  kycId :: string
  tier :: uint8

datatype kyc_role = KYC_DEFAULT_ADMIN_ROLE | KYC_PROVIDER_ROLE

record KYCGate =
  kycData :: "address \<Rightarrow> KYCData"
  blockedCountries :: "bytes32 \<Rightarrow> bool"
  highRiskCountries :: "bytes32 \<Rightarrow> bool"
  maxAcceptableRiskScore :: uint8
  defaultExpiryDuration :: uint256
  kycRequired :: bool
  totalVerifiedUsers :: uint256
  totalRevokedUsers :: uint256
  kyc_roles :: "kyc_role \<Rightarrow> address \<Rightarrow> bool"

definition zero_KYCData :: KYCData where
  "zero_KYCData = \<lparr> kyc_isVerified = False, verifiedAt = 0, expiresAt = 0, countryHash = 0,
     riskScore = 0, kycId = [], tier = 0 \<rparr>"

text \<open>The constructor; \<open>365 days\<close> is 31536000 seconds.\<close>

definition KYCGate_constructor :: "address \<Rightarrow> KYCGate" where
  "KYCGate_constructor msg_sender =
     \<lparr> kycData = (\<lambda>_. zero_KYCData), blockedCountries = (\<lambda>_. False),
       highRiskCountries = (\<lambda>_. False), maxAcceptableRiskScore = 70,
       defaultExpiryDuration = 31536000, kycRequired = True,
       totalVerifiedUsers = 0, totalRevokedUsers = 0,
       kyc_roles = (\<lambda>r a. a = msg_sender) \<rparr>"

definition verifyUser ::
  "KYCGate \<Rightarrow> address \<Rightarrow> uint256 \<Rightarrow> address \<Rightarrow> uint256 \<Rightarrow> bytes32 \<Rightarrow> uint8 \<Rightarrow> string \<Rightarrow> uint8
     \<Rightarrow> error + KYCGate" where
  "verifyUser g msg_sender block_timestamp p_user p_expiresAt p_countryHash p_riskScore p_kycId p_tier =
    (if \<not> kyc_roles g KYC_PROVIDER_ROLE msg_sender then Inl AccessControlUnauthorizedAccount
     else if \<not> (p_user \<noteq> 0) then Inl (Revert ''Invalid user address'')
     else if \<not> (\<not> blockedCountries g p_countryHash) then Inl (Revert ''Country is sanctioned'')
     else if \<not> (p_expiresAt > block_timestamp) then Inl (Revert ''Expiry must be in future'')
     else if \<not> (p_riskScore \<le> 100) then Inl (Revert ''Risk score must be 0-100'')
     else if \<not> (p_riskScore \<le> maxAcceptableRiskScore g) then Inl (Revert ''Risk score too high'')
     else if \<not> (p_tier \<ge> 1 \<and> p_tier \<le> 3) then Inl (Revert ''Tier must be 1-3'')
     else if \<not> (length p_kycId > 0) then Inl (Revert ''KYC ID required'')
     else
       (let wasVerified = kyc_isVerified (kycData g p_user);
            g1 = g\<lparr> kycData := (kycData g)(p_user :=
                   \<lparr> kyc_isVerified = True, verifiedAt = block_timestamp, expiresAt = p_expiresAt,
                     countryHash = p_countryHash, riskScore = p_riskScore, kycId = p_kycId,
                     tier = p_tier \<rparr>) \<rparr>
        in if \<not> wasVerified then
             (case checked_add (totalVerifiedUsers g1) 1 of Inl e \<Rightarrow> Inl e
              | Inr n \<Rightarrow> Inr (g1\<lparr> totalVerifiedUsers := n \<rparr>))
           else Inr g1))"

definition revokeKYC :: "KYCGate \<Rightarrow> address \<Rightarrow> address \<Rightarrow> string \<Rightarrow> error + KYCGate" where
  "revokeKYC g msg_sender p_user p_reason =
    (if \<not> kyc_roles g KYC_PROVIDER_ROLE msg_sender then Inl AccessControlUnauthorizedAccount
     else if \<not> (p_user \<noteq> 0) then Inl (Revert ''Invalid user address'')
     else if \<not> kyc_isVerified (kycData g p_user) then Inl (Revert ''User not verified'')
     else
       (case checked_add (totalRevokedUsers g) 1 of Inl e \<Rightarrow> Inl e
        | Inr n \<Rightarrow>
          Inr (g\<lparr> kycData := (kycData g)(p_user := (kycData g p_user)\<lparr> kyc_isVerified := False \<rparr>),
                   totalRevokedUsers := n \<rparr>)))"

definition isVerified :: "KYCGate \<Rightarrow> uint256 \<Rightarrow> address \<Rightarrow> bool" where
  "isVerified g block_timestamp p_user =
    (if \<not> kycRequired g then True
     else
       (let data = kycData g p_user
        in kyc_isVerified data \<and> expiresAt data > block_timestamp
           \<and> riskScore data \<le> maxAcceptableRiskScore g))"

definition setKYCRequired :: "KYCGate \<Rightarrow> address \<Rightarrow> bool \<Rightarrow> error + KYCGate" where
  "setKYCRequired g msg_sender p_required =
    (if \<not> kyc_roles g KYC_DEFAULT_ADMIN_ROLE msg_sender then Inl AccessControlUnauthorizedAccount
     else Inr (g\<lparr> kycRequired := p_required \<rparr>))"

section \<open>The ERC20 token\<close>

text \<open>
  The asset of the vault (MockUSDC in the deployment) and the vault's own shares are
  both ERC20 tokens of the OpenZeppelin library (version 5), which is imported by the
  contracts and is not part of the repository. Its functions are written here as the
  library has them: \<open>_update\<close> checks the sender's balance and the total supply on
  minting; the other additions and subtractions there are unchecked.
\<close>

record ERC20 =
  balances :: "address \<Rightarrow> uint256"
  allowances :: "address \<Rightarrow> address \<Rightarrow> uint256"
  erc20_totalSupply :: uint256

definition erc20_update :: "ERC20 \<Rightarrow> address \<Rightarrow> address \<Rightarrow> uint256 \<Rightarrow> error + ERC20" where
  "erc20_update t p_from p_to p_value =
    (case (if p_from = 0 then
             (case checked_add (erc20_totalSupply t) p_value of Inl e \<Rightarrow> Inl e
              | Inr n \<Rightarrow> Inr (t\<lparr> erc20_totalSupply := n \<rparr>))
           else if balances t p_from < p_value then Inl ERC20InsufficientBalance
           else Inr (t\<lparr> balances := (balances t)(p_from := balances t p_from - p_value) \<rparr>))
     of Inl e \<Rightarrow> Inl e
      | Inr t1 \<Rightarrow>
         (if p_to = 0 then Inr (t1\<lparr> erc20_totalSupply := erc20_totalSupply t1 - p_value \<rparr>)
          else Inr (t1\<lparr> balances := (balances t1)(p_to := balances t1 p_to + p_value) \<rparr>)))"

definition erc20_transfer :: "ERC20 \<Rightarrow> address \<Rightarrow> address \<Rightarrow> uint256 \<Rightarrow> error + ERC20" where
  "erc20_transfer t p_from p_to p_value =
    (if p_from = 0 then Inl ERC20InvalidSender
     else if p_to = 0 then Inl ERC20InvalidReceiver
     else erc20_update t p_from p_to p_value)"

definition erc20_mint :: "ERC20 \<Rightarrow> address \<Rightarrow> uint256 \<Rightarrow> error + ERC20" where
  "erc20_mint t p_account p_value =
    (if p_account = 0 then Inl ERC20InvalidReceiver else erc20_update t 0 p_account p_value)"

definition erc20_burn :: "ERC20 \<Rightarrow> address \<Rightarrow> uint256 \<Rightarrow> error + ERC20" where
  "erc20_burn t p_account p_value =
    (if p_account = 0 then Inl ERC20InvalidSender else erc20_update t p_account 0 p_value)"

definition erc20_spendAllowance :: "ERC20 \<Rightarrow> address \<Rightarrow> address \<Rightarrow> uint256 \<Rightarrow> error + ERC20" where
  "erc20_spendAllowance t p_owner p_spender p_value =
    (let currentAllowance = allowances t p_owner p_spender
     in if currentAllowance \<noteq> - 1 then
          (if currentAllowance < p_value then Inl ERC20InsufficientAllowance
           else if p_owner = 0 then Inl ERC20InvalidApprover
           else if p_spender = 0 then Inl ERC20InvalidSpender
           else Inr (t\<lparr> allowances := (allowances t)(p_owner :=
                         (allowances t p_owner)(p_spender := currentAllowance - p_value)) \<rparr>))
        else Inr t)"

text \<open>\<open>transferFrom\<close>, called by \<open>p_spender\<close>.\<close>

definition erc20_transferFrom ::
  "ERC20 \<Rightarrow> address \<Rightarrow> address \<Rightarrow> address \<Rightarrow> uint256 \<Rightarrow> error + ERC20" where
  "erc20_transferFrom t p_spender p_from p_to p_value =
    (case erc20_spendAllowance t p_from p_spender p_value of Inl e \<Rightarrow> Inl e
     | Inr t1 \<Rightarrow> erc20_transfer t1 p_from p_to p_value)"

text \<open>\<open>approve\<close>, called by \<open>p_owner\<close>.\<close>

definition erc20_approve :: "ERC20 \<Rightarrow> address \<Rightarrow> address \<Rightarrow> uint256 \<Rightarrow> error + ERC20" where
  "erc20_approve t p_owner p_spender p_value =
    (if p_owner = 0 then Inl ERC20InvalidApprover
     else if p_spender = 0 then Inl ERC20InvalidSpender
     else Inr (t\<lparr> allowances := (allowances t)(p_owner :=
                   (allowances t p_owner)(p_spender := p_value)) \<rparr>))"

section \<open>TrancheVault.sol\<close>

record InvoiceAllocation =
  invoiceId :: uint256
  alloc_faceValue :: uint256
  addedAt :: uint256
  isActive :: bool

text \<open>
  The storage of the vault: its own variables, the owner of Ownable, and of the
  inherited ERC4626 the share token (\<open>shares\<close>) and the decimals of the asset read at
  construction. \<open>this\<close> is the vault's address, under which it holds the asset.
\<close>

record TrancheVault =
  isSenior :: bool
  targetAPY :: uint256
  totalInvoiceValue :: uint256
  totalInvoiceDiscountedValue :: uint256
  invoiceIds :: "uint256 list"
  containsInvoice :: "uint256 \<Rightarrow> bool"
  totalYieldDistributed :: uint256
  lastDistributionTime :: uint256
  epochCounter :: uint256
  minDeposit :: uint256
  depositCap :: uint256
  depositsEnabled :: bool
  withdrawalsEnabled :: bool
  totalDefaultLoss :: uint256
  cumulativeYield :: uint256
  allocations :: "uint256 \<Rightarrow> InvoiceAllocation"
  vault_owner :: address
  shares :: ERC20
  underlyingDecimals :: uint8
  this :: address

text \<open>The contracts the vault works with, and the vault.\<close>

record World =
  invoiceNFT :: InvoiceNFT
  kycGate :: KYCGate
  asset :: ERC20
  vault :: TrancheVault

definition zero_InvoiceAllocation :: InvoiceAllocation where
  "zero_InvoiceAllocation = \<lparr> invoiceId = 0, alloc_faceValue = 0, addedAt = 0, isActive = False \<rparr>"

text \<open>
  The constructor, for a vault deployed at \<open>p_this\<close> by \<open>msg_sender\<close> over an asset of
  \<open>p_decimals\<close> decimals. The minimum deposit is \<open>100 * 10**6\<close>.
\<close>

definition TrancheVault_constructor ::
  "address \<Rightarrow> uint256 \<Rightarrow> address \<Rightarrow> uint8 \<Rightarrow> address \<Rightarrow> address \<Rightarrow> address \<Rightarrow> bool \<Rightarrow> uint256
     \<Rightarrow> error + TrancheVault" where
  "TrancheVault_constructor msg_sender block_timestamp p_this p_decimals p_invoiceNFT p_kycGate
       p_asset p_isSenior p_targetAPY =
    (if msg_sender = 0 then Inl OwnableUnauthorizedAccount
     else if \<not> (p_invoiceNFT \<noteq> 0) then Inl (Revert ''Invalid InvoiceNFT address'')
     else if \<not> (p_kycGate \<noteq> 0) then Inl (Revert ''Invalid KYCGate address'')
     else if \<not> (p_asset \<noteq> 0) then Inl (Revert ''Invalid asset address'')
     else if \<not> (p_targetAPY > 0 \<and> p_targetAPY \<le> 10000) then Inl (Revert ''Invalid APY (0-100%)'')
     else Inr \<lparr> isSenior = p_isSenior, targetAPY = p_targetAPY, totalInvoiceValue = 0,
            totalInvoiceDiscountedValue = 0, invoiceIds = [], containsInvoice = (\<lambda>_. False),
            totalYieldDistributed = 0, lastDistributionTime = block_timestamp, epochCounter = 0,
            minDeposit = 100000000, depositCap = 0, depositsEnabled = True,
            withdrawalsEnabled = True, totalDefaultLoss = 0, cumulativeYield = 0,
            allocations = (\<lambda>_. zero_InvoiceAllocation), vault_owner = msg_sender,
            shares = \<lparr> balances = (\<lambda>_. 0), allowances = (\<lambda>_ _. 0), erc20_totalSupply = 0 \<rparr>,
            underlyingDecimals = p_decimals, this = p_this \<rparr>)"

subsection \<open>The inherited ERC4626\<close>

datatype Rounding = Floor | Ceil

text \<open>
  Modelled from the spec: the ERC4626 base contract that the vault inherits (OpenZeppelin
  Contracts, version 5) is imported and not among the sources. The spec gives the unit
  price as total assets over total units, scaled to a fixed-point unit, with conversions
  rounded down in favour of the pool. The library computes a conversion as
  \<open>shares * (totalAssets + 1) / (totalSupply + 10 ** 0)\<close> with a full-precision
  \<open>mulDiv\<close>, which reverts when the quotient does not fit in 256 bits; that is what
  is written here. \<open>totalAssets\<close> is the vault's balance of the asset, and
  \<open>decimals\<close> the asset's decimals plus the offset 0.
\<close>

definition mulDiv :: "uint256 \<Rightarrow> uint256 \<Rightarrow> uint256 \<Rightarrow> Rounding \<Rightarrow> error + uint256" where
  "mulDiv x y denominator rounding =
    (if denominator = 0 then Inl Panic_division_by_zero
     else if \<not> (unat x * unat y div unat denominator < 2 ^ 256) then Inl MathOverflowedMulDiv
     else
       (let result = (of_nat (unat x * unat y div unat denominator) :: uint256)
        in if rounding = Ceil \<and> (unat x * unat y) mod unat denominator > 0
           then checked_add result 1 else Inr result))"

definition totalAssets :: "World \<Rightarrow> uint256" where
  "totalAssets w = balances (asset w) (this (vault w))"

definition totalSupply :: "World \<Rightarrow> uint256" where
  "totalSupply w = erc20_totalSupply (shares (vault w))"

definition balanceOf :: "World \<Rightarrow> address \<Rightarrow> uint256" where
  "balanceOf w account = balances (shares (vault w)) account"


definition convertToShares :: "World \<Rightarrow> uint256 \<Rightarrow> Rounding \<Rightarrow> error + uint256" where
  "convertToShares w p_assets rounding =
    (case checked_add (totalSupply w) 1 of Inl e \<Rightarrow> Inl e | Inr supply1 \<Rightarrow>
     case checked_add (totalAssets w) 1 of Inl e \<Rightarrow> Inl e | Inr assets1 \<Rightarrow>
       mulDiv p_assets supply1 assets1 rounding)"

definition convertToAssets :: "World \<Rightarrow> uint256 \<Rightarrow> Rounding \<Rightarrow> error + uint256" where
  "convertToAssets w p_shares rounding =
    (case checked_add (totalAssets w) 1 of Inl e \<Rightarrow> Inl e | Inr assets1 \<Rightarrow>
     case checked_add (totalSupply w) 1 of Inl e \<Rightarrow> Inl e | Inr supply1 \<Rightarrow>
       mulDiv p_shares assets1 supply1 rounding)"


text \<open>\<open>_deposit\<close> and \<open>_withdraw\<close> of ERC4626.\<close>

definition erc4626_deposit ::
  "World \<Rightarrow> address \<Rightarrow> address \<Rightarrow> uint256 \<Rightarrow> uint256 \<Rightarrow> error + World" where
  "erc4626_deposit w caller receiver p_assets p_shares =
    (case erc20_transferFrom (asset w) (this (vault w)) caller (this (vault w)) p_assets of
       Inl e \<Rightarrow> Inl e
     | Inr a \<Rightarrow>
       (case erc20_mint (shares (vault w)) receiver p_shares of Inl e \<Rightarrow> Inl e
        | Inr sh \<Rightarrow> Inr (w\<lparr> asset := a, vault := (vault w)\<lparr> shares := sh \<rparr> \<rparr>)))"

definition erc4626_withdraw ::
  "World \<Rightarrow> address \<Rightarrow> address \<Rightarrow> address \<Rightarrow> uint256 \<Rightarrow> uint256 \<Rightarrow> error + World" where
  "erc4626_withdraw w caller receiver p_owner p_assets p_shares =
    (case (if caller \<noteq> p_owner then erc20_spendAllowance (shares (vault w)) p_owner caller p_shares
           else Inr (shares (vault w))) of
       Inl e \<Rightarrow> Inl e
     | Inr sh1 \<Rightarrow>
       (case erc20_burn sh1 p_owner p_shares of Inl e \<Rightarrow> Inl e
        | Inr sh \<Rightarrow>
          (case erc20_transfer (asset w) (this (vault w)) receiver p_assets of Inl e \<Rightarrow> Inl e
           | Inr a \<Rightarrow> Inr (w\<lparr> asset := a, vault := (vault w)\<lparr> shares := sh \<rparr> \<rparr>))))"

subsection \<open>The vault's functions\<close>

definition deposit ::
  "World \<Rightarrow> address \<Rightarrow> uint256 \<Rightarrow> uint256 \<Rightarrow> address \<Rightarrow> error + (World \<times> uint256)" where
  "deposit w msg_sender block_timestamp p_assets receiver =
    (if \<not> depositsEnabled (vault w) then Inl (Revert ''Deposits are currently disabled'')
     else if \<not> isVerified (kycGate w) block_timestamp receiver
       then Inl (Revert ''Receiver not KYC verified'')
     else if \<not> (p_assets \<ge> minDeposit (vault w)) then Inl (Revert ''Below minimum deposit'')
     else
       (case (if depositCap (vault w) > 0 then
                (case checked_add (totalAssets w) p_assets of Inl e \<Rightarrow> Inl e
                 | Inr n \<Rightarrow> if \<not> (n \<le> depositCap (vault w)) then Inl (Revert ''Deposit exceeds cap'')
                            else Inr ())
              else Inr ()) of
          Inl e \<Rightarrow> Inl e
        | Inr _ \<Rightarrow>
          (case convertToShares w p_assets Floor of Inl e \<Rightarrow> Inl e
           | Inr p_shares \<Rightarrow>
             (case erc4626_deposit w msg_sender receiver p_assets p_shares of Inl e \<Rightarrow> Inl e
              | Inr w' \<Rightarrow> Inr (w', p_shares)))))"

definition mint ::
  "World \<Rightarrow> address \<Rightarrow> uint256 \<Rightarrow> uint256 \<Rightarrow> address \<Rightarrow> error + (World \<times> uint256)" where
  "mint w msg_sender block_timestamp p_shares receiver =
    (if \<not> depositsEnabled (vault w) then Inl (Revert ''Deposits are currently disabled'')
     else if \<not> isVerified (kycGate w) block_timestamp receiver
       then Inl (Revert ''Receiver not KYC verified'')
     else
       (case convertToAssets w p_shares Ceil of Inl e \<Rightarrow> Inl e
        | Inr p_assets \<Rightarrow>
          if \<not> (p_assets \<ge> minDeposit (vault w)) then Inl (Revert ''Below minimum deposit'')
          else
            (case (if depositCap (vault w) > 0 then
                     (case checked_add (totalAssets w) p_assets of Inl e \<Rightarrow> Inl e
                      | Inr n \<Rightarrow> if \<not> (n \<le> depositCap (vault w))
                                 then Inl (Revert ''Deposit exceeds cap'') else Inr ())
                   else Inr ()) of
               Inl e \<Rightarrow> Inl e
             | Inr _ \<Rightarrow>
               (case convertToAssets w p_shares Ceil of Inl e \<Rightarrow> Inl e
                | Inr p_assets2 \<Rightarrow>
                  (case erc4626_deposit w msg_sender receiver p_assets2 p_shares of Inl e \<Rightarrow> Inl e
                   | Inr w' \<Rightarrow> Inr (w', p_assets2))))))"

definition redeem ::
  "World \<Rightarrow> address \<Rightarrow> uint256 \<Rightarrow> uint256 \<Rightarrow> address \<Rightarrow> address \<Rightarrow> error + (World \<times> uint256)" where
  "redeem w msg_sender block_timestamp p_shares receiver p_owner =
    (if \<not> withdrawalsEnabled (vault w) then Inl (Revert ''Withdrawals are currently disabled'')
     else if \<not> isVerified (kycGate w) block_timestamp receiver
       then Inl (Revert ''Receiver not KYC verified'')
     else if p_shares > balanceOf w p_owner then Inl ERC4626ExceededMaxRedeem
     else
       (case convertToAssets w p_shares Floor of Inl e \<Rightarrow> Inl e
        | Inr p_assets \<Rightarrow>
          (case erc4626_withdraw w msg_sender receiver p_owner p_assets p_shares of Inl e \<Rightarrow> Inl e
           | Inr w' \<Rightarrow> Inr (w', p_assets))))"

definition withdraw ::
  "World \<Rightarrow> address \<Rightarrow> uint256 \<Rightarrow> uint256 \<Rightarrow> address \<Rightarrow> address \<Rightarrow> error + (World \<times> uint256)" where
  "withdraw w msg_sender block_timestamp p_assets receiver p_owner =
    (if \<not> withdrawalsEnabled (vault w) then Inl (Revert ''Withdrawals are currently disabled'')
     else if \<not> isVerified (kycGate w) block_timestamp receiver
       then Inl (Revert ''Receiver not KYC verified'')
     else
       (case convertToAssets w (balanceOf w p_owner) Floor of Inl e \<Rightarrow> Inl e
        | Inr maxAssets \<Rightarrow>
          if p_assets > maxAssets then Inl ERC4626ExceededMaxWithdraw
          else
            (case convertToShares w p_assets Ceil of Inl e \<Rightarrow> Inl e
             | Inr p_shares \<Rightarrow>
               (case erc4626_withdraw w msg_sender receiver p_owner p_assets p_shares of
                  Inl e \<Rightarrow> Inl e
                | Inr w' \<Rightarrow> Inr (w', p_shares)))))"

definition addInvoice :: "World \<Rightarrow> address \<Rightarrow> uint256 \<Rightarrow> uint256 \<Rightarrow> error + World" where
  "addInvoice w msg_sender block_timestamp p_invoiceId =
    (if msg_sender \<noteq> vault_owner (vault w) then Inl OwnableUnauthorizedAccount
     else if \<not> (\<not> containsInvoice (vault w) p_invoiceId) then Inl (Revert ''Invoice already in vault'')
     else
       (case getInvoice (invoiceNFT w) p_invoiceId of Inl e \<Rightarrow> Inl e
        | Inr invoice \<Rightarrow>
          if \<not> (status invoice = VERIFIED) then Inl (Revert ''Invoice not verified'')
          else if \<not> (maturityDate invoice > block_timestamp) then Inl (Revert ''Invoice already matured'')
          else
            (case checked_add (totalInvoiceValue (vault w)) (faceValue invoice) of Inl e \<Rightarrow> Inl e
             | Inr tv \<Rightarrow>
               (case checked_add (totalInvoiceDiscountedValue (vault w)) (discountedValue invoice) of
                  Inl e \<Rightarrow> Inl e
                | Inr tdv \<Rightarrow>
                  Inr (w\<lparr> vault := (vault w)
                        \<lparr> invoiceIds := invoiceIds (vault w) @ [p_invoiceId],
                          containsInvoice := (containsInvoice (vault w))(p_invoiceId := True),
                          totalInvoiceValue := tv,
                          totalInvoiceDiscountedValue := tdv,
                          allocations := (allocations (vault w))(p_invoiceId :=
                            \<lparr> invoiceId = p_invoiceId, alloc_faceValue = faceValue invoice,
                              addedAt = block_timestamp, isActive = True \<rparr>) \<rparr> \<rparr>)))))"

definition removeInvoice :: "World \<Rightarrow> address \<Rightarrow> uint256 \<Rightarrow> string \<Rightarrow> error + World" where
  "removeInvoice w msg_sender p_invoiceId p_reason =
    (if msg_sender \<noteq> vault_owner (vault w) then Inl OwnableUnauthorizedAccount
     else if \<not> containsInvoice (vault w) p_invoiceId then Inl (Revert ''Invoice not in vault'')
     else
       (case getInvoice (invoiceNFT w) p_invoiceId of Inl e \<Rightarrow> Inl e
        | Inr invoice \<Rightarrow>
          (let v1 = (vault w)
                 \<lparr> containsInvoice := (containsInvoice (vault w))(p_invoiceId := False),
                   allocations := (allocations (vault w))(p_invoiceId :=
                     (allocations (vault w) p_invoiceId)\<lparr> isActive := False \<rparr>) \<rparr>
           in case (if totalInvoiceValue v1 \<ge> faceValue invoice then
                      (case checked_sub (totalInvoiceValue v1) (faceValue invoice) of Inl e \<Rightarrow> Inl e
                       | Inr n \<Rightarrow> Inr (v1\<lparr> totalInvoiceValue := n \<rparr>))
                    else Inr v1) of
                Inl e \<Rightarrow> Inl e
              | Inr v2 \<Rightarrow>
                (case (if totalInvoiceDiscountedValue v2 \<ge> discountedValue invoice then
                         (case checked_sub (totalInvoiceDiscountedValue v2) (discountedValue invoice) of
                            Inl e \<Rightarrow> Inl e
                          | Inr n \<Rightarrow> Inr (v2\<lparr> totalInvoiceDiscountedValue := n \<rparr>))
                       else Inr v2) of
                   Inl e \<Rightarrow> Inl e
                 | Inr v3 \<Rightarrow> Inr (w\<lparr> vault := v3 \<rparr>)))))"



section \<open>The oracle service (index.js of oracle-service)\<close>
















section \<open>A deployment for the scenarios\<close>

text \<open>
  Account 1 deploys the contracts and owns the vault, which is at address 3 (the
  registry at 11, the gate at 12, the asset, of 6 decimals, at 13). Account 5 is an
  investor the gate has verified until time 1000000. The owner and the investor hold
  1000 units of the asset each and have approved the vault. In the registry the invoice
  of scenario A has been verified at time 20.
\<close>

definition scenario_asset :: ERC20 where
  "scenario_asset =
     \<lparr> balances = (\<lambda>_. 0)(1 := 1000000000, 5 := 1000000000),
       allowances = (\<lambda>_ _. 0)(1 := (\<lambda>_. 0)(3 := - 1), 5 := (\<lambda>_. 0)(3 := - 1)),
       erc20_totalSupply = 2000000000 \<rparr>"

definition scenario_world :: World where
  "scenario_world =
     \<lparr> invoiceNFT = run (scenario_calls @ [VerifyInvoice 2 20 1]) (InvoiceNFT_constructor 1),
       kycGate = projr (verifyUser (KYCGate_constructor 1) 1 5 5 1000000 77 10 ''kyc-5'' 1),
       asset = scenario_asset,
       vault = projr (TrancheVault_constructor 1 5 3 6 11 12 13 True 800) \<rparr>"


section \<open>Checked arithmetic\<close>

lemma checked_add_Inr:
  "checked_add a b = Inr c \<Longrightarrow> c = a + b \<and> unat (a + b) = unat a + unat b"
  by (auto simp: checked_add_def unat_add_lem[THEN iffD1] split: if_splits)

lemma checked_sub_Inr:
  "checked_sub a b = Inr c \<Longrightarrow> b \<le> a \<and> c = a - b \<and> unat (a - b) = unat a - unat b"
  by (auto simp: checked_sub_def unat_sub split: if_splits)

lemma checked_mul_Inr:
  "checked_mul a b = Inr c \<Longrightarrow>
     unat a * unat b < 2 ^ 256 \<and> c = a * b \<and> unat (a * b) = unat a * unat b"
  by (auto simp: checked_mul_def unat_mult_lem[THEN iffD1] split: if_splits)

section \<open>What a successful call of the registry has checked and written\<close>

lemma mintInvoice_Inr:
  assumes "mintInvoice s sender now fv mat deb h nm rate acc = Inr (s', tid)"
  shows "roles s ISSUER_ROLE sender \<and> now < mat \<and> 0 < fv \<and> deb \<noteq> 0 \<and> h \<noteq> 0
     \<and> \<not> usedInvoiceHashes s h \<and> 0 < rate \<and> rate \<le> 5000 \<and> tid = nextTokenId s \<and> owners s tid = 0
     \<and> unat fv * (10000 - unat rate) < 2 ^ 256
     \<and> s' = s\<lparr> nextTokenId := nextTokenId s + 1,
          invoices := (invoices s)(tid := \<lparr> tokenId = tid, faceValue = fv,
             discountedValue = (fv * (10000 - rate)) div 10000,
             maturityDate = mat, debtor = deb, invoiceHash = h, status = PENDING, paidAmount = 0,
             issuedAt = now, issuer = sender, debtorName = nm, discountRate = rate \<rparr>),
          usedInvoiceHashes := (usedInvoiceHashes s)(h := True),
          owners := (owners s)(tid := sender) \<rparr>"
proof -
  have c: "roles s ISSUER_ROLE sender" "now < mat" "0 < fv" "deb \<noteq> 0" "h \<noteq> 0"
    "\<not> usedInvoiceHashes s h" "0 < rate \<and> rate \<le> 5000"
    using assms unfolding mintInvoice_def by (simp_all split: if_splits)
  from assms c obtain nextId keep product where
    a: "checked_add (nextTokenId s) 1 = Inr nextId" and
    b: "checked_sub 10000 rate = Inr keep" and
    m: "checked_mul fv keep = Inr product" and
    r: "(if sender = 0 then Inl ERC721InvalidReceiver
         else if owners s (nextTokenId s) \<noteq> 0 then Inl ERC721InvalidSender
         else if \<not> acc then Inl ERC721InvalidReceiver
         else Inr (s\<lparr> nextTokenId := nextId,
            invoices := (invoices s)(nextTokenId s := \<lparr> tokenId = nextTokenId s, faceValue = fv,
             discountedValue = product div 10000,
             maturityDate = mat, debtor = deb, invoiceHash = h, status = PENDING, paidAmount = 0,
             issuedAt = now, issuer = sender, debtorName = nm, discountRate = rate \<rparr>),
            usedInvoiceHashes := (usedInvoiceHashes s)(h := True),
            owners := (owners s)(nextTokenId s := sender) \<rparr>, nextTokenId s)) = Inr (s', tid)"
    unfolding mintInvoice_def Let_def by (simp split: sum.splits)
  from r have t: "tid = nextTokenId s" "owners s tid = 0" by (simp_all split: if_splits)
  from checked_sub_Inr[OF b] have k: "keep = 10000 - rate" "unat (10000 - rate) = 10000 - unat rate" by simp_all
  from checked_mul_Inr[OF m] k have p: "product = fv * (10000 - rate)" "unat fv * (10000 - unat rate) < 2 ^ 256"
    by simp_all
  from checked_add_Inr[OF a] have n: "nextId = nextTokenId s + 1" by simp
  from r have "s' = s\<lparr> nextTokenId := nextId,
            invoices := (invoices s)(nextTokenId s := \<lparr> tokenId = nextTokenId s, faceValue = fv,
             discountedValue = product div 10000,
             maturityDate = mat, debtor = deb, invoiceHash = h, status = PENDING, paidAmount = 0,
             issuedAt = now, issuer = sender, debtorName = nm, discountRate = rate \<rparr>),
            usedInvoiceHashes := (usedInvoiceHashes s)(h := True),
            owners := (owners s)(nextTokenId s := sender) \<rparr>"
    by (auto split: if_splits)
  with c t p n show ?thesis by simp
qed

lemma verifyInvoice_Inr:
  assumes "verifyInvoice s sender now tid = Inr s'"
  shows "roles s ORACLE_ROLE sender \<and> owners s tid \<noteq> 0 \<and> status (invoices s tid) = PENDING
     \<and> now < maturityDate (invoices s tid)
     \<and> s' = s\<lparr> invoices := (invoices s)(tid := (invoices s tid)\<lparr> status := VERIFIED \<rparr>) \<rparr>"
  using assms unfolding verifyInvoice_def Let_def by (simp split: if_splits)

lemma markAsFunded_Inr:
  assumes "markAsFunded s sender tid = Inr s'"
  shows "roles s VAULT_ROLE sender \<and> owners s tid \<noteq> 0 \<and> status (invoices s tid) = VERIFIED
     \<and> s' = s\<lparr> invoices := (invoices s)(tid := (invoices s tid)\<lparr> status := FUNDED \<rparr>),
               totalInvoicesFunded := totalInvoicesFunded s + 1,
               totalValueFunded := totalValueFunded s + faceValue (invoices s tid) \<rparr>"
  using assms unfolding markAsFunded_def Let_def
  by (auto split: if_splits sum.splits dest!: checked_add_Inr)

lemma recordPayment_Inr:
  assumes "recordPayment s sender tid amount = Inr s'"
  shows "roles s ORACLE_ROLE sender \<and> owners s tid \<noteq> 0 \<and> 0 < amount
     \<and> (status (invoices s tid) = FUNDED \<or> status (invoices s tid) = PARTIAL_PAID)
     \<and> unat (paidAmount (invoices s tid)) + unat amount \<le> unat (faceValue (invoices s tid))
     \<and> unat (paidAmount (invoices s tid) + amount) = unat (paidAmount (invoices s tid)) + unat amount
     \<and> s' = s\<lparr> invoices := (invoices s)(tid := (invoices s tid)
                  \<lparr> paidAmount := paidAmount (invoices s tid) + amount,
                    status := (if paidAmount (invoices s tid) + amount \<ge> faceValue (invoices s tid)
                               then PAID else PARTIAL_PAID) \<rparr>),
               totalValuePaid := totalValuePaid s + amount \<rparr>"
  using assms unfolding recordPayment_def Let_def
  by (auto split: if_splits sum.splits dest!: checked_add_Inr simp: word_le_nat_alt)

lemma markAsDefaulted_Inr:
  assumes "markAsDefaulted s sender now tid = Inr s'"
  shows "roles s ORACLE_ROLE sender \<and> owners s tid \<noteq> 0 \<and> maturityDate (invoices s tid) < now
     \<and> status (invoices s tid) \<noteq> PAID \<and> status (invoices s tid) \<noteq> DEFAULTED
     \<and> paidAmount (invoices s tid) \<le> faceValue (invoices s tid)
     \<and> s' = s\<lparr> invoices := (invoices s)(tid := (invoices s tid)\<lparr> status := DEFAULTED \<rparr>),
               totalDefaulted := totalDefaulted s + (faceValue (invoices s tid) - paidAmount (invoices s tid)) \<rparr>"
  using assms unfolding markAsDefaulted_def Let_def
  by (auto split: if_splits sum.splits dest!: checked_add_Inr checked_sub_Inr)

section \<open>The discounted value\<close>

lemma discount_arith:
  fixes fv rate :: uint256
  assumes "0 < fv" "0 < rate" "rate \<le> 5000" "unat fv * (10000 - unat rate) < 2 ^ 256"
  shows "unat ((fv * (10000 - rate)) div 10000) = unat fv * (10000 - unat rate) div 10000"
    and "(fv * (10000 - rate)) div 10000 < fv"
    and "2 \<le> unat fv \<Longrightarrow> 0 < (fv * (10000 - rate)) div 10000"
proof -
  have r: "0 < unat rate" "unat rate \<le> 5000" using assms(2,3) by (simp_all add: word_less_nat_alt word_le_nat_alt)
  have f: "0 < unat fv" using assms(1) by (simp add: word_less_nat_alt)
  have le: "rate \<le> 10000" using assms(3) by (simp add: word_le_nat_alt)
  have k: "unat (10000 - rate) = 10000 - unat rate" using le by (simp add: unat_sub)
  have m: "unat (fv * (10000 - rate)) = unat fv * (10000 - unat rate)"
    using assms(4) k unat_mult_lem[of fv "10000 - rate"] by simp
  show d: "unat ((fv * (10000 - rate)) div 10000) = unat fv * (10000 - unat rate) div 10000"
    by (simp add: unat_div m)
  have "unat fv * (10000 - unat rate) < unat fv * 10000" using r f by simp
  then have "unat fv * (10000 - unat rate) div 10000 < unat fv"
    by (simp add: less_mult_imp_div_less) 
  then show "(fv * (10000 - rate)) div 10000 < fv" by (simp add: word_less_nat_alt d)
  assume "2 \<le> unat fv"
  then have "2 * 5000 \<le> unat fv * (10000 - unat rate)" using r
    by (intro mult_le_mono) simp_all
  then have "0 < unat fv * (10000 - unat rate) div 10000" by (simp add: div_greater_zero_iff)
  then show "0 < (fv * (10000 - rate)) div 10000" by (simp add: word_less_nat_alt d)
qed

section \<open>The invariant holds in every reachable state\<close>

lemma registry_inv_constructor: "registry_inv (InvoiceNFT_constructor d)"
  by (simp add: registry_inv_def InvoiceNFT_constructor_def zero_Invoice_def)

lemma registry_inv_exec:
  assumes "registry_inv s" "exec c s = Inr s'"
  shows "registry_inv s'"
proof (cases c)
  case (MintInvoice sender now fv mat deb h nm rate acc)
  with assms(2) obtain tid where "mintInvoice s sender now fv mat deb h nm rate acc = Inr (s', tid)"
    by (auto split: sum.splits)
  from mintInvoice_Inr[OF this] assms(1) show ?thesis
    by (auto simp: registry_inv_def)
next
  case (VerifyInvoice sender now tid)
  with assms(2) have "verifyInvoice s sender now tid = Inr s'" by simp
  from verifyInvoice_Inr[OF this] assms(1) show ?thesis
    by (auto simp: registry_inv_def)
next
  case (MarkAsFunded sender tid)
  with assms(2) have "markAsFunded s sender tid = Inr s'" by simp
  from markAsFunded_Inr[OF this] assms(1) show ?thesis
    by (auto simp: registry_inv_def)
next
  case (RecordPayment sender tid amount)
  with assms(2) have "recordPayment s sender tid amount = Inr s'" by simp
  from recordPayment_Inr[OF this] assms(1) show ?thesis
    by (auto simp: registry_inv_def word_le_nat_alt)
next
  case (MarkAsDefaulted sender now tid)
  with assms(2) have "markAsDefaulted s sender now tid = Inr s'" by simp
  from markAsDefaulted_Inr[OF this] assms(1) show ?thesis
    by (auto simp: registry_inv_def)
next
  case (SetRole r a b)
  with assms show ?thesis by (auto simp: registry_inv_def)
next
  case (TransferToken to tid)
  with assms show ?thesis by (auto simp: registry_inv_def split: if_splits)
qed

lemma registry_inv_apply_call: "registry_inv s \<Longrightarrow> registry_inv (apply_call s c)"
  by (auto simp: apply_call_def split: sum.splits intro: registry_inv_exec)

lemma registry_inv_foldl: "registry_inv s \<Longrightarrow> registry_inv (foldl apply_call s cs)"
  by (induction cs arbitrary: s) (simp_all add: registry_inv_apply_call)

lemma registry_inv_run: "registry_inv (run cs (InvoiceNFT_constructor d))"
  by (simp add: run_def registry_inv_foldl registry_inv_constructor)

lemmas evaluate = run_def apply_call_def mintInvoice_def verifyInvoice_def markAsFunded_def
  recordPayment_def markAsDefaulted_def checked_add_def checked_sub_def checked_mul_def
  InvoiceNFT_constructor_def zero_Invoice_def scenario_calls_def

section \<open>Submission: the discounted value\<close>

text \<open>
  Claim C4, as amended. Every submission that goes through stores
  \<open>discountedValue = floor (faceValue * (10000 - discountRate) / 10000)\<close>, computed
  without wrap-around, and this value is strictly below the face value. It is positive
  as soon as the face value is at least 2; for a face value of 1 it is 0.
\<close>

theorem mintInvoice_discountedValue:
  assumes "mintInvoice s sender now fv mat deb h nm rate acc = Inr (s', tid)"
  shows "unat (discountedValue (invoices s' tid)) = unat fv * (10000 - unat rate) div 10000
       \<and> faceValue (invoices s' tid) = fv
       \<and> discountedValue (invoices s' tid) < fv
       \<and> (2 \<le> unat fv \<longrightarrow> 0 < discountedValue (invoices s' tid))"
proof -
  from mintInvoice_Inr[OF assms] have
    c: "0 < fv" "0 < rate" "rate \<le> 5000" "unat fv * (10000 - unat rate) < 2 ^ 256" and
    d: "discountedValue (invoices s' tid) = (fv * (10000 - rate)) div 10000" and
    f: "faceValue (invoices s' tid) = fv"
    by simp_all
  from discount_arith[OF c] d f show ?thesis by simp
qed

theorem mintInvoice_discountedValue_witness:
  "mintInvoice (run (butlast scenario_calls) (InvoiceNFT_constructor 1))
       1 10 100000 1000 7 9 ''ACME'' 500 True
     = Inr (run scenario_calls (InvoiceNFT_constructor 1), 1)
   \<and> unat (discountedValue (invoices (run scenario_calls (InvoiceNFT_constructor 1)) 1)) = 95000"
proof -
  have m: "mintInvoice (run (butlast scenario_calls) (InvoiceNFT_constructor 1))
       1 10 100000 1000 7 9 ''ACME'' 500 True
     = Inr (run scenario_calls (InvoiceNFT_constructor 1), 1)"
    by (simp add: evaluate)
  from mintInvoice_discountedValue[OF m] m show ?thesis by simp
qed

text \<open>
  The claim as stated asks for \<open>0 < discountedValue\<close>. A submission of face value 1
  at 5000 basis points is valid and goes through, and its discounted value is 0.
\<close>

theorem mintInvoice_discountedValue_counterexample:
  "owners (run [SetRole ISSUER_ROLE 1 True, MintInvoice 1 10 1 1000 7 9 ''ACME'' 5000 True]
             (InvoiceNFT_constructor 1)) 1 = 1
   \<and> faceValue (invoices (run [SetRole ISSUER_ROLE 1 True, MintInvoice 1 10 1 1000 7 9 ''ACME'' 5000 True]
             (InvoiceNFT_constructor 1)) 1) = 1
   \<and> discountedValue (invoices (run [SetRole ISSUER_ROLE 1 True, MintInvoice 1 10 1 1000 7 9 ''ACME'' 5000 True]
             (InvoiceNFT_constructor 1)) 1) = 0"
  by (simp add: evaluate)

section \<open>Evidence hashes\<close>

lemma usedInvoiceHashes_exec:
  assumes "usedInvoiceHashes s h" "exec c s = Inr s'"
  shows "usedInvoiceHashes s' h"
proof (cases c)
  case (MintInvoice sender now fv mat deb h' nm rate acc)
  with assms(2) obtain tid where "mintInvoice s sender now fv mat deb h' nm rate acc = Inr (s', tid)"
    by (auto split: sum.splits)
  from mintInvoice_Inr[OF this] assms(1) show ?thesis by auto
next
  case (VerifyInvoice sender now tid)
  with assms(2) have "verifyInvoice s sender now tid = Inr s'" by simp
  from verifyInvoice_Inr[OF this] assms(1) show ?thesis by auto
next
  case (MarkAsFunded sender tid)
  with assms(2) have "markAsFunded s sender tid = Inr s'" by simp
  from markAsFunded_Inr[OF this] assms(1) show ?thesis by auto
next
  case (RecordPayment sender tid amount)
  with assms(2) have "recordPayment s sender tid amount = Inr s'" by simp
  from recordPayment_Inr[OF this] assms(1) show ?thesis by auto
next
  case (MarkAsDefaulted sender now tid)
  with assms(2) have "markAsDefaulted s sender now tid = Inr s'" by simp
  from markAsDefaulted_Inr[OF this] assms(1) show ?thesis by auto
next
  case (SetRole r a b)
  with assms show ?thesis by auto
next
  case (TransferToken to tid)
  with assms show ?thesis by (auto split: if_splits)
qed

lemma usedInvoiceHashes_foldl:
  "usedInvoiceHashes s h \<Longrightarrow> usedInvoiceHashes (foldl apply_call s cs) h"
proof (induction cs arbitrary: s)
  case Nil
  then show ?case by simp
next
  case (Cons c cs)
  have "usedInvoiceHashes (apply_call s c) h"
    using Cons.prems usedInvoiceHashes_exec[of s h c]
    by (cases "exec c s") (simp_all add: apply_call_def)
  from Cons.IH[OF this] show ?case by simp
qed

lemma mintInvoice_used_hash:
  "usedInvoiceHashes s h \<Longrightarrow> roles s ISSUER_ROLE sender \<Longrightarrow> now < mat \<Longrightarrow> 0 < fv \<Longrightarrow> deb \<noteq> 0 \<Longrightarrow> h \<noteq> 0 \<Longrightarrow>
     mintInvoice s sender now fv mat deb h nm rate acc = Inl (Revert ''Invoice already exists'')"
  by (simp add: mintInvoice_def)

text \<open>
  Claim C8. Once a submission with evidence hash \<open>h\<close> has gone through, the hash stays
  marked as used whatever calls follow, so that every later submission with \<open>h\<close>
  reverts and leaves the storage as it was, in whatever state the first invoice is by then.
\<close>

theorem evidence_hash_consumed_forever:
  assumes "mintInvoice s sender now fv mat deb h nm rate acc = Inr (s1, tid)"
  shows "usedInvoiceHashes (run cs s1) h
       \<and> isl (mintInvoice (run cs s1) sender' now' fv' mat' deb' h nm' rate' acc')
       \<and> apply_call (run cs s1) (MintInvoice sender' now' fv' mat' deb' h nm' rate' acc') = run cs s1"
proof -
  from mintInvoice_Inr[OF assms] have "usedInvoiceHashes s1 h" by simp
  then have u: "usedInvoiceHashes (run cs s1) h" by (simp add: run_def usedInvoiceHashes_foldl)
  have "\<And>x. mintInvoice (run cs s1) sender' now' fv' mat' deb' h nm' rate' acc' \<noteq> Inr x"
  proof
    fix x assume a: "mintInvoice (run cs s1) sender' now' fv' mat' deb' h nm' rate' acc' = Inr x"
    obtain s2 t2 where "x = (s2, t2)" by (cases x)
    with a mintInvoice_Inr[of "run cs s1" sender' now' fv' mat' deb' h nm' rate' acc' s2 t2] u
    show False by simp
  qed
  then have i: "isl (mintInvoice (run cs s1) sender' now' fv' mat' deb' h nm' rate' acc')"
    by (cases "mintInvoice (run cs s1) sender' now' fv' mat' deb' h nm' rate' acc'") auto
  then have "apply_call (run cs s1) (MintInvoice sender' now' fv' mat' deb' h nm' rate' acc') = run cs s1"
    by (auto simp: apply_call_def isl_def)
  with u i show ?thesis by simp
qed

theorem evidence_hash_consumed_forever_witness:
  "status (invoices (run [VerifyInvoice 2 20 1, MarkAsFunded 3 1, RecordPayment 2 1 100000]
       (run scenario_calls (InvoiceNFT_constructor 1))) 1) = PAID
   \<and> isl (mintInvoice (run [VerifyInvoice 2 20 1, MarkAsFunded 3 1, RecordPayment 2 1 100000]
       (run scenario_calls (InvoiceNFT_constructor 1))) 1 30 500 2000 8 9 ''Other'' 100 True)"
proof -
  have m: "mintInvoice (run (butlast scenario_calls) (InvoiceNFT_constructor 1))
       1 10 100000 1000 7 9 ''ACME'' 500 True
     = Inr (run scenario_calls (InvoiceNFT_constructor 1), 1)"
    by (simp add: evaluate)
  have p: "status (invoices (run [VerifyInvoice 2 20 1, MarkAsFunded 3 1, RecordPayment 2 1 100000]
       (run scenario_calls (InvoiceNFT_constructor 1))) 1) = PAID"
    by (simp add: evaluate)
  from evidence_hash_consumed_forever[OF m] p show ?thesis by simp
qed

section \<open>Payments\<close>

lemma recordPayment_overpay:
  assumes "unat (faceValue (invoices s i)) < unat (paidAmount (invoices s i)) + unat amount"
  shows "isl (recordPayment s sender i amount)"
proof (cases "recordPayment s sender i amount")
  case (Inr s')
  from recordPayment_Inr[OF Inr] assms show ?thesis by simp
qed simp

lemma recordPayment_exceeds_message:
  assumes "recordPayment s sender i amount = Inl (Revert ''Payment exceeds face value'')"
  shows "0 < amount \<and> (status (invoices s i) = FUNDED \<or> status (invoices s i) = PARTIAL_PAID)
       \<and> unat (faceValue (invoices s i)) < unat (paidAmount (invoices s i)) + unat amount"
  using assms unfolding recordPayment_def Let_def
  by (auto split: if_splits sum.splits simp: word_le_nat_alt checked_add_def unat_add_lem[THEN iffD1])

lemma exec_all_payments:
  assumes "exec_all (map (RecordPayment sender i) amounts) s = Inr s'"
  shows "unat (paidAmount (invoices s' i)) = unat (paidAmount (invoices s i)) + sum_list (map unat amounts)
       \<and> faceValue (invoices s' i) = faceValue (invoices s i)
       \<and> (amounts \<noteq> [] \<longrightarrow> status (invoices s' i) =
             (if faceValue (invoices s' i) \<le> paidAmount (invoices s' i) then PAID else PARTIAL_PAID))"
  using assms
proof (induction amounts arbitrary: s)
  case Nil
  then show ?case by simp
next
  case (Cons a as)
  from Cons.prems obtain s1 where
    p: "recordPayment s sender i a = Inr s1" and
    r: "exec_all (map (RecordPayment sender i) as) s1 = Inr s'"
    by (auto split: sum.splits)
  from recordPayment_Inr[OF p] have
    q: "unat (paidAmount (invoices s1 i)) = unat (paidAmount (invoices s i)) + unat a"
       "faceValue (invoices s1 i) = faceValue (invoices s i)"
       "status (invoices s1 i) =
          (if faceValue (invoices s1 i) \<le> paidAmount (invoices s1 i) then PAID else PARTIAL_PAID)"
    by simp_all
  show ?case
  proof (cases "as = []")
    case True
    with r have "s' = s1" by simp
    with q True show ?thesis by simp
  next
    case False
    with Cons.IH[OF r] q show ?thesis by simp
  qed
qed

text \<open>
  Claim C6. In every state the registry can reach, and for every invoice, the amount
  paid is at most the face value. A payment that would bring it above the face value
  reverts and leaves the storage as it was (nothing is clamped); the revert with the
  message about the face value is reached only with a positive amount on an invoice that
  is \<open>FUNDED\<close> or \<open>PARTIAL_PAID\<close>, as is every accepted payment, which adds
  exactly its amount. Payments that are all accepted and bring the amount paid exactly
  to the face value leave the invoice \<open>PAID\<close>.
\<close>

theorem recordPayment_conservation:
  "paidAmount (invoices (run cs (InvoiceNFT_constructor d)) i)
      \<le> faceValue (invoices (run cs (InvoiceNFT_constructor d)) i)
   \<and> (unat (faceValue (invoices s i)) < unat (paidAmount (invoices s i)) + unat amount
        \<longrightarrow> isl (recordPayment s sender i amount)
          \<and> apply_call s (RecordPayment sender i amount) = s)
   \<and> (recordPayment s sender i amount = Inl (Revert ''Payment exceeds face value'')
        \<longrightarrow> 0 < amount \<and> (status (invoices s i) = FUNDED \<or> status (invoices s i) = PARTIAL_PAID))
   \<and> (recordPayment s sender i amount = Inr s'
        \<longrightarrow> 0 < amount \<and> (status (invoices s i) = FUNDED \<or> status (invoices s i) = PARTIAL_PAID)
          \<and> unat (paidAmount (invoices s' i)) = unat (paidAmount (invoices s i)) + unat amount
          \<and> paidAmount (invoices s' i) \<le> faceValue (invoices s' i))
   \<and> (exec_all (map (RecordPayment sender i) amounts) s = Inr s'' \<and> amounts \<noteq> []
        \<and> unat (paidAmount (invoices s i)) + sum_list (map unat amounts) = unat (faceValue (invoices s i))
        \<longrightarrow> status (invoices s'' i) = PAID \<and> paidAmount (invoices s'' i) = faceValue (invoices s'' i))"
proof (intro conjI impI)
  show "paidAmount (invoices (run cs (InvoiceNFT_constructor d)) i)
      \<le> faceValue (invoices (run cs (InvoiceNFT_constructor d)) i)"
    using registry_inv_run[of cs d] by (simp add: registry_inv_def)
next
  assume "unat (faceValue (invoices s i)) < unat (paidAmount (invoices s i)) + unat amount"
  from recordPayment_overpay[OF this]
  show "isl (recordPayment s sender i amount)" .
next
  assume "unat (faceValue (invoices s i)) < unat (paidAmount (invoices s i)) + unat amount"
  from recordPayment_overpay[OF this, of sender]
  show "apply_call s (RecordPayment sender i amount) = s"
    by (auto simp: apply_call_def isl_def)
next
  assume a: "recordPayment s sender i amount = Inl (Revert ''Payment exceeds face value'')"
  from recordPayment_exceeds_message[OF a] show "0 < amount" by simp
  from recordPayment_exceeds_message[OF a]
  show "status (invoices s i) = FUNDED \<or> status (invoices s i) = PARTIAL_PAID" by simp
next
  assume a: "recordPayment s sender i amount = Inr s'"
  from recordPayment_Inr[OF a] show "0 < amount" by simp
  from recordPayment_Inr[OF a]
  show "status (invoices s i) = FUNDED \<or> status (invoices s i) = PARTIAL_PAID" by simp
  from recordPayment_Inr[OF a]
  show "unat (paidAmount (invoices s' i)) = unat (paidAmount (invoices s i)) + unat amount" by simp
  from recordPayment_Inr[OF a]
  show "paidAmount (invoices s' i) \<le> faceValue (invoices s' i)" by (simp add: word_le_nat_alt)
next
  assume a: "exec_all (map (RecordPayment sender i) amounts) s = Inr s'' \<and> amounts \<noteq> []
        \<and> unat (paidAmount (invoices s i)) + sum_list (map unat amounts) = unat (faceValue (invoices s i))"
  then have e: "exec_all (map (RecordPayment sender i) amounts) s = Inr s''" by simp
  from exec_all_payments[OF e] a
  have u: "unat (paidAmount (invoices s'' i)) = unat (faceValue (invoices s'' i))"
    and st: "status (invoices s'' i) =
             (if faceValue (invoices s'' i) \<le> paidAmount (invoices s'' i) then PAID else PARTIAL_PAID)"
    by simp_all
  from u show "paidAmount (invoices s'' i) = faceValue (invoices s'' i)"
    by (simp add: word_unat_eq_iff)
  with st show "status (invoices s'' i) = PAID" by simp
qed

theorem recordPayment_conservation_witness:
  "exec_all (map (RecordPayment 2 1) [40000, 35000, 25000])
       (run (scenario_calls @ [VerifyInvoice 2 20 1, MarkAsFunded 3 1]) (InvoiceNFT_constructor 1))
     = Inr (run (scenario_calls @ [VerifyInvoice 2 20 1, MarkAsFunded 3 1,
          RecordPayment 2 1 40000, RecordPayment 2 1 35000, RecordPayment 2 1 25000]) (InvoiceNFT_constructor 1))
   \<and> status (invoices (run (scenario_calls @ [VerifyInvoice 2 20 1, MarkAsFunded 3 1,
          RecordPayment 2 1 40000, RecordPayment 2 1 35000, RecordPayment 2 1 25000]) (InvoiceNFT_constructor 1)) 1) = PAID
   \<and> recordPayment (run (scenario_calls @ [VerifyInvoice 2 20 1, MarkAsFunded 3 1,
          RecordPayment 2 1 40000]) (InvoiceNFT_constructor 1)) 2 1 60001
       = Inl (Revert ''Payment exceeds face value'')
   \<and> apply_call (run (scenario_calls @ [VerifyInvoice 2 20 1, MarkAsFunded 3 1,
          RecordPayment 2 1 40000]) (InvoiceNFT_constructor 1)) (RecordPayment 2 1 60001)
       = run (scenario_calls @ [VerifyInvoice 2 20 1, MarkAsFunded 3 1,
          RecordPayment 2 1 40000]) (InvoiceNFT_constructor 1)"
proof -
  have e: "exec_all (map (RecordPayment 2 1) [40000, 35000, 25000])
       (run (scenario_calls @ [VerifyInvoice 2 20 1, MarkAsFunded 3 1]) (InvoiceNFT_constructor 1))
     = Inr (run (scenario_calls @ [VerifyInvoice 2 20 1, MarkAsFunded 3 1,
          RecordPayment 2 1 40000, RecordPayment 2 1 35000, RecordPayment 2 1 25000]) (InvoiceNFT_constructor 1))"
    by (simp add: evaluate)
  have v: "unat (paidAmount (invoices (run (scenario_calls @ [VerifyInvoice 2 20 1, MarkAsFunded 3 1])
              (InvoiceNFT_constructor 1)) 1)) + sum_list (map unat [40000, 35000, 25000 :: uint256])
         = unat (faceValue (invoices (run (scenario_calls @ [VerifyInvoice 2 20 1, MarkAsFunded 3 1])
              (InvoiceNFT_constructor 1)) 1))"
    by (simp add: evaluate)
  have o: "unat (faceValue (invoices (run (scenario_calls @ [VerifyInvoice 2 20 1, MarkAsFunded 3 1,
          RecordPayment 2 1 40000]) (InvoiceNFT_constructor 1)) 1))
        < unat (paidAmount (invoices (run (scenario_calls @ [VerifyInvoice 2 20 1, MarkAsFunded 3 1,
          RecordPayment 2 1 40000]) (InvoiceNFT_constructor 1)) 1)) + unat (60001 :: uint256)"
    by (simp add: evaluate)
  have x: "recordPayment (run (scenario_calls @ [VerifyInvoice 2 20 1, MarkAsFunded 3 1,
          RecordPayment 2 1 40000]) (InvoiceNFT_constructor 1)) 2 1 60001
       = Inl (Revert ''Payment exceeds face value'')"
    by (simp add: evaluate)
  note t1 = recordPayment_conservation[of
      "[]" 1 1
      "run (scenario_calls @ [VerifyInvoice 2 20 1, MarkAsFunded 3 1]) (InvoiceNFT_constructor 1)"
      0 2 undefined "[40000, 35000, 25000]"
      "run (scenario_calls @ [VerifyInvoice 2 20 1, MarkAsFunded 3 1,
          RecordPayment 2 1 40000, RecordPayment 2 1 35000, RecordPayment 2 1 25000]) (InvoiceNFT_constructor 1)"]
  note t2 = recordPayment_conservation[of
      "[]" 1 1
      "run (scenario_calls @ [VerifyInvoice 2 20 1, MarkAsFunded 3 1,
          RecordPayment 2 1 40000]) (InvoiceNFT_constructor 1)"
      60001 2 undefined "[]" undefined]
  from t1 e v have "status (invoices (run (scenario_calls @ [VerifyInvoice 2 20 1, MarkAsFunded 3 1,
          RecordPayment 2 1 40000, RecordPayment 2 1 35000, RecordPayment 2 1 25000]) (InvoiceNFT_constructor 1)) 1) = PAID"
    by blast
  moreover from t2 o have "apply_call (run (scenario_calls @ [VerifyInvoice 2 20 1, MarkAsFunded 3 1,
          RecordPayment 2 1 40000]) (InvoiceNFT_constructor 1)) (RecordPayment 2 1 60001)
       = run (scenario_calls @ [VerifyInvoice 2 20 1, MarkAsFunded 3 1,
          RecordPayment 2 1 40000]) (InvoiceNFT_constructor 1)"
    by blast
  ultimately show ?thesis using e x by simp
qed

section \<open>Default\<close>

text \<open>
  Claim C7. In every state the registry can reach, \<open>markAsDefaulted\<close> reverts on an
  invoice whose amount paid equals its face value, and it reverts when the block time
  is not after the maturity date. The first part rests on the invariant that an existing
  invoice paid in full is \<open>PAID\<close>.
\<close>

theorem markAsDefaulted_exclusive:
  assumes "paidAmount (invoices (run cs (InvoiceNFT_constructor d)) i)
             = faceValue (invoices (run cs (InvoiceNFT_constructor d)) i)
           \<or> now \<le> maturityDate (invoices (run cs (InvoiceNFT_constructor d)) i)"
  shows "isl (markAsDefaulted (run cs (InvoiceNFT_constructor d)) sender now i)"
proof (cases "markAsDefaulted (run cs (InvoiceNFT_constructor d)) sender now i")
  case (Inl e)
  then show ?thesis by simp
next
  case (Inr s')
  from markAsDefaulted_Inr[OF Inr] have
    e: "owners (run cs (InvoiceNFT_constructor d)) i \<noteq> 0" and
    m: "maturityDate (invoices (run cs (InvoiceNFT_constructor d)) i) < now" and
    p: "status (invoices (run cs (InvoiceNFT_constructor d)) i) \<noteq> PAID"
    by simp_all
  from registry_inv_run[of cs d] e p
  have "paidAmount (invoices (run cs (InvoiceNFT_constructor d)) i)
          \<noteq> faceValue (invoices (run cs (InvoiceNFT_constructor d)) i)"
    by (auto simp: registry_inv_def)
  with assms m show ?thesis by auto
qed

theorem markAsDefaulted_exclusive_witness:
  "paidAmount (invoices (run (scenario_calls @ [VerifyInvoice 2 20 1, MarkAsFunded 3 1,
        RecordPayment 2 1 40000, RecordPayment 2 1 60000]) (InvoiceNFT_constructor 1)) 1) = 100000
   \<and> isl (markAsDefaulted (run (scenario_calls @ [VerifyInvoice 2 20 1, MarkAsFunded 3 1,
        RecordPayment 2 1 40000, RecordPayment 2 1 60000]) (InvoiceNFT_constructor 1)) 2 1001 1)
   \<and> isl (markAsDefaulted (run (scenario_calls @ [VerifyInvoice 2 20 1, MarkAsFunded 3 1])
        (InvoiceNFT_constructor 1)) 2 1000 1)"
proof -
  have a: "paidAmount (invoices (run (scenario_calls @ [VerifyInvoice 2 20 1, MarkAsFunded 3 1,
        RecordPayment 2 1 40000, RecordPayment 2 1 60000]) (InvoiceNFT_constructor 1)) 1) = 100000"
       "faceValue (invoices (run (scenario_calls @ [VerifyInvoice 2 20 1, MarkAsFunded 3 1,
        RecordPayment 2 1 40000, RecordPayment 2 1 60000]) (InvoiceNFT_constructor 1)) 1) = 100000"
    by (simp_all add: evaluate)
  have b: "maturityDate (invoices (run (scenario_calls @ [VerifyInvoice 2 20 1, MarkAsFunded 3 1])
        (InvoiceNFT_constructor 1)) 1) = 1000"
    by (simp add: evaluate)
  show ?thesis
    using markAsDefaulted_exclusive[of "scenario_calls @ [VerifyInvoice 2 20 1, MarkAsFunded 3 1,
        RecordPayment 2 1 40000, RecordPayment 2 1 60000]" 1 1 1001 2]
      markAsDefaulted_exclusive[of "scenario_calls @ [VerifyInvoice 2 20 1, MarkAsFunded 3 1]" 1 1 1000 2]
      a b by simp
qed

text \<open>
  Claim C3, as amended. An invoice becomes \<open>DEFAULTED\<close> only through
  \<open>markAsDefaulted\<close>, called after its maturity date on an invoice that is neither
  \<open>PAID\<close> nor \<open>DEFAULTED\<close>: that is from \<open>PENDING\<close>, \<open>VERIFIED\<close>,
  \<open>FUNDED\<close> or \<open>PARTIAL_PAID\<close>. On a \<open>PENDING\<close> or \<open>VERIFIED\<close> invoice
  \<open>markAsDefaulted\<close> reverts as long as the maturity date has not passed.
\<close>

theorem defaulted_only_by_markAsDefaulted:
  "(exec c s = Inr s' \<and> status (invoices s' i) = DEFAULTED \<and> status (invoices s i) \<noteq> DEFAULTED
      \<longrightarrow> (\<exists>sender now. c = MarkAsDefaulted sender now i \<and> maturityDate (invoices s i) < now)
          \<and> status (invoices s i) \<in> {PENDING, VERIFIED, FUNDED, PARTIAL_PAID})
   \<and> (status (invoices s i) \<in> {PENDING, VERIFIED} \<and> now \<le> maturityDate (invoices s i)
      \<longrightarrow> isl (markAsDefaulted s sender now i))"
proof (intro conjI impI)
  assume a: "exec c s = Inr s' \<and> status (invoices s' i) = DEFAULTED \<and> status (invoices s i) \<noteq> DEFAULTED"
  then have e: "exec c s = Inr s'" and d': "status (invoices s' i) = DEFAULTED"
    and d: "status (invoices s i) \<noteq> DEFAULTED" by simp_all
  show "\<exists>sender now. c = MarkAsDefaulted sender now i \<and> maturityDate (invoices s i) < now"
  proof (cases c)
    case (MintInvoice sender now fv mat deb h nm rate acc)
    with e obtain tid where "mintInvoice s sender now fv mat deb h nm rate acc = Inr (s', tid)"
      by (auto split: sum.splits)
    from mintInvoice_Inr[OF this] d d' show ?thesis by (auto split: if_splits)
  next
    case (VerifyInvoice sender now tid)
    with e have "verifyInvoice s sender now tid = Inr s'" by simp
    from verifyInvoice_Inr[OF this] d d' show ?thesis by (auto split: if_splits)
  next
    case (MarkAsFunded sender tid)
    with e have "markAsFunded s sender tid = Inr s'" by simp
    from markAsFunded_Inr[OF this] d d' show ?thesis by (auto split: if_splits)
  next
    case (RecordPayment sender tid amount)
    with e have "recordPayment s sender tid amount = Inr s'" by simp
    from recordPayment_Inr[OF this] d d' show ?thesis by (auto split: if_splits)
  next
    case (MarkAsDefaulted sender now tid)
    with e have "markAsDefaulted s sender now tid = Inr s'" by simp
    from markAsDefaulted_Inr[OF this] d d' MarkAsDefaulted show ?thesis by (auto split: if_splits)
  next
    case (SetRole r a b)
    with e d d' show ?thesis by auto
  next
    case (TransferToken to tid)
    with e d d' show ?thesis by (auto split: if_splits)
  qed
  then obtain sender now where "markAsDefaulted s sender now i = Inr s'" using e by auto
  from markAsDefaulted_Inr[OF this] d
  show "status (invoices s i) \<in> {PENDING, VERIFIED, FUNDED, PARTIAL_PAID}"
    by (cases "status (invoices s i)") simp_all
next
  assume a: "status (invoices s i) \<in> {PENDING, VERIFIED} \<and> now \<le> maturityDate (invoices s i)"
  show "isl (markAsDefaulted s sender now i)"
  proof (cases "markAsDefaulted s sender now i")
    case (Inr s'')
    from markAsDefaulted_Inr[OF Inr] a show ?thesis by auto
  qed simp
qed

theorem defaulted_only_by_markAsDefaulted_witness:
  "exec (MarkAsDefaulted 2 1001 1) (run scenario_calls (InvoiceNFT_constructor 1))
     = Inr (run (scenario_calls @ [MarkAsDefaulted 2 1001 1]) (InvoiceNFT_constructor 1))
   \<and> status (invoices (run (scenario_calls @ [MarkAsDefaulted 2 1001 1]) (InvoiceNFT_constructor 1)) 1) = DEFAULTED
   \<and> status (invoices (run scenario_calls (InvoiceNFT_constructor 1)) 1) = PENDING
   \<and> maturityDate (invoices (run scenario_calls (InvoiceNFT_constructor 1)) 1) < 1001
   \<and> isl (markAsDefaulted (run scenario_calls (InvoiceNFT_constructor 1)) 2 1000 1)"
proof -
  have e: "exec (MarkAsDefaulted 2 1001 1) (run scenario_calls (InvoiceNFT_constructor 1))
     = Inr (run (scenario_calls @ [MarkAsDefaulted 2 1001 1]) (InvoiceNFT_constructor 1))"
    by (simp add: evaluate)
  have s: "status (invoices (run (scenario_calls @ [MarkAsDefaulted 2 1001 1]) (InvoiceNFT_constructor 1)) 1) = DEFAULTED"
    "status (invoices (run scenario_calls (InvoiceNFT_constructor 1)) 1) = PENDING"
    "maturityDate (invoices (run scenario_calls (InvoiceNFT_constructor 1)) 1) = 1000"
    by (simp_all add: evaluate)
  show ?thesis
    using defaulted_only_by_markAsDefaulted[of "MarkAsDefaulted 2 1001 1"
        "run scenario_calls (InvoiceNFT_constructor 1)"
        "run (scenario_calls @ [MarkAsDefaulted 2 1001 1]) (InvoiceNFT_constructor 1)" 1 1000 2]
      e s by simp
qed

text \<open>
  The claim as stated says that \<open>markAsDefaulted\<close> never goes through on a
  \<open>PENDING\<close> invoice. After the maturity date it does: the invoice of scenario A,
  never verified, is marked \<open>DEFAULTED\<close> at time 1001.
\<close>

theorem markAsDefaulted_from_PENDING_counterexample:
  "status (invoices (run scenario_calls (InvoiceNFT_constructor 1)) 1) = PENDING
   \<and> markAsDefaulted (run scenario_calls (InvoiceNFT_constructor 1)) 2 1001 1
       = Inr (run (scenario_calls @ [MarkAsDefaulted 2 1001 1]) (InvoiceNFT_constructor 1))
   \<and> status (invoices (run (scenario_calls @ [MarkAsDefaulted 2 1001 1]) (InvoiceNFT_constructor 1)) 1)
       = DEFAULTED"
  by (simp add: evaluate)

section \<open>Conversions of the vault\<close>













section \<open>Evaluating the scenario deployment\<close>

lemma scenario_vault:
  "vault scenario_world =
     \<lparr> isSenior = True, targetAPY = 800, totalInvoiceValue = 0,
            totalInvoiceDiscountedValue = 0, invoiceIds = [], containsInvoice = (\<lambda>_. False),
            totalYieldDistributed = 0, lastDistributionTime = 5, epochCounter = 0,
            minDeposit = 100000000, depositCap = 0, depositsEnabled = True,
            withdrawalsEnabled = True, totalDefaultLoss = 0, cumulativeYield = 0,
            allocations = (\<lambda>_. zero_InvoiceAllocation), vault_owner = 1,
            shares = \<lparr> balances = (\<lambda>_. 0), allowances = (\<lambda>_ _. 0), erc20_totalSupply = 0 \<rparr>,
            underlyingDecimals = 6, this = 3 \<rparr>"
  by (simp add: scenario_world_def TrancheVault_constructor_def)

lemma scenario_kycGate:
  "kycGate scenario_world = (KYCGate_constructor 1)
     \<lparr> kycData := (\<lambda>_. zero_KYCData)(5 :=
          \<lparr> kyc_isVerified = True, verifiedAt = 5, expiresAt = 1000000, countryHash = 77,
            riskScore = 10, kycId = ''kyc-5'', tier = 1 \<rparr>),
       totalVerifiedUsers := 1 \<rparr>"
  by (simp add: scenario_world_def verifyUser_def KYCGate_constructor_def zero_KYCData_def
      checked_add_def Let_def)

lemma scenario_components:
  "asset scenario_world = scenario_asset"
  "invoiceNFT scenario_world = run (scenario_calls @ [VerifyInvoice 2 20 1]) (InvoiceNFT_constructor 1)"
  by (simp_all add: scenario_world_def)




lemma scenario_transferFrom:
  "erc20_transferFrom scenario_asset 3 5 3 100000000 =
     Inr (scenario_asset\<lparr> balances := (balances scenario_asset)(5 := 900000000, 3 := 100000000) \<rparr>)"
  by (simp add: erc20_transferFrom_def erc20_spendAllowance_def erc20_transfer_def
      erc20_update_def scenario_asset_def Let_def)











section \<open>Yield and share price\<close>




section \<open>Allocations\<close>

lemma getInvoice_Inr: "getInvoice s i = Inr v \<Longrightarrow> owners s i \<noteq> 0 \<and> v = invoices s i"
  by (auto simp: getInvoice_def split: if_splits)

lemma addInvoice_Inr:
  assumes "addInvoice w sender now i = Inr w'"
  shows "invoiceNFT w' = invoiceNFT w \<and> asset w' = asset w \<and> kycGate w' = kycGate w
       \<and> sender = vault_owner (vault w) \<and> \<not> containsInvoice (vault w) i
       \<and> owners (invoiceNFT w) i \<noteq> 0
       \<and> status (invoices (invoiceNFT w) i) = VERIFIED
       \<and> now < maturityDate (invoices (invoiceNFT w) i)
       \<and> containsInvoice (vault w') i \<and> isActive (allocations (vault w') i)"
proof -
  have c: "sender = vault_owner (vault w)" "\<not> containsInvoice (vault w) i"
    using assms unfolding addInvoice_def by (simp_all split: if_splits)
  from assms c obtain v where g: "getInvoice (invoiceNFT w) i = Inr v"
    unfolding addInvoice_def by (simp split: sum.splits)
  from assms c g have s: "status v = VERIFIED" "now < maturityDate v"
    unfolding addInvoice_def by (simp_all split: if_splits)
  from assms c g s obtain tv where tv: "checked_add (totalInvoiceValue (vault w)) (faceValue v) = Inr tv"
    unfolding addInvoice_def by (simp split: sum.splits)
  from assms c g s tv obtain tdv where
    tdv: "checked_add (totalInvoiceDiscountedValue (vault w)) (discountedValue v) = Inr tdv"
    unfolding addInvoice_def by (simp split: sum.splits)
  from assms c g s tv tdv have
    "w' = w\<lparr> vault := (vault w)
                        \<lparr> invoiceIds := invoiceIds (vault w) @ [i],
                          containsInvoice := (containsInvoice (vault w))(i := True),
                          totalInvoiceValue := tv,
                          totalInvoiceDiscountedValue := tdv,
                          allocations := (allocations (vault w))(i :=
                            \<lparr> invoiceId = i, alloc_faceValue = faceValue v,
                              addedAt = now, isActive = True \<rparr>) \<rparr> \<rparr>"
    unfolding addInvoice_def by simp
  with c s getInvoice_Inr[OF g] show ?thesis by simp
qed

lemma scenario_invoice:
  "owners (invoiceNFT scenario_world) 1 = 1"
  "invoices (invoiceNFT scenario_world) 1 =
     \<lparr> tokenId = 1, faceValue = 100000, discountedValue = 95000, maturityDate = 1000, debtor = 7,
       invoiceHash = 9, status = VERIFIED, paidAmount = 0, issuedAt = 10, issuer = 1,
       debtorName = ''ACME'', discountRate = 500 \<rparr>"
  "totalInvoicesFunded (invoiceNFT scenario_world) = 0"
  by (simp_all add: scenario_components evaluate)

lemma scenario_addInvoice:
  "addInvoice scenario_world 1 30 1 =
     Inr (scenario_world\<lparr> vault := (vault scenario_world)
            \<lparr> invoiceIds := [1],
              containsInvoice := (\<lambda>_. False)(1 := True),
              totalInvoiceValue := 100000,
              totalInvoiceDiscountedValue := 95000,
              allocations := (\<lambda>_. zero_InvoiceAllocation)(1 :=
                 \<lparr> invoiceId = 1, alloc_faceValue = 100000, addedAt = 30, isActive = True \<rparr>) \<rparr> \<rparr>)"
  unfolding addInvoice_def getInvoice_def
  by (simp add: scenario_invoice scenario_vault checked_add_def)

text \<open>
  Claim C1. The claim says that adding a verified, unexpired invoice to the vault calls
  \<open>markAsFunded\<close> on the registry and leaves the invoice \<open>FUNDED\<close>. The code of
  \<open>addInvoice\<close> only reads the registry: on the invoice of scenario A, verified and due
  at time 1000, the owner's \<open>addInvoice\<close> at time 30 goes through and creates the active
  allocation, but the invoice is still \<open>VERIFIED\<close>, the registry's count of funded
  invoices is still 0, and the payment of scenario A is then rejected.
\<close>

theorem addInvoice_does_not_mark_funded:
  "status (invoices (invoiceNFT scenario_world) 1) = VERIFIED
   \<and> \<not> isl (addInvoice scenario_world 1 30 1)
   \<and> isActive (allocations (vault (projr (addInvoice scenario_world 1 30 1))) 1)
   \<and> status (invoices (invoiceNFT (projr (addInvoice scenario_world 1 30 1))) 1) = VERIFIED
   \<and> totalInvoicesFunded (invoiceNFT (projr (addInvoice scenario_world 1 30 1))) = 0
   \<and> isl (recordPayment (invoiceNFT (projr (addInvoice scenario_world 1 30 1))) 2 1 100000)"
  by (simp add: scenario_addInvoice scenario_invoice recordPayment_def scenario_components evaluate)

lemma removeInvoice_eq:
  assumes "sender = vault_owner (vault w)" "containsInvoice (vault w) i" "owners (invoiceNFT w) i \<noteq> 0"
  shows "removeInvoice w sender i reason =
     Inr (w\<lparr> vault := (vault w)
        \<lparr> containsInvoice := (containsInvoice (vault w))(i := False),
          allocations := (allocations (vault w))(i := (allocations (vault w) i)\<lparr> isActive := False \<rparr>),
          totalInvoiceValue :=
            (if faceValue (invoices (invoiceNFT w) i) \<le> totalInvoiceValue (vault w)
             then totalInvoiceValue (vault w) - faceValue (invoices (invoiceNFT w) i)
             else totalInvoiceValue (vault w)),
          totalInvoiceDiscountedValue :=
            (if discountedValue (invoices (invoiceNFT w) i) \<le> totalInvoiceDiscountedValue (vault w)
             then totalInvoiceDiscountedValue (vault w) - discountedValue (invoices (invoiceNFT w) i)
             else totalInvoiceDiscountedValue (vault w)) \<rparr> \<rparr>)"
  using assms unfolding removeInvoice_def getInvoice_def Let_def checked_sub_def
  by simp

lemma removeInvoice_Inl:
  "removeInvoice w sender i reason = Inl e \<Longrightarrow>
     e = OwnableUnauthorizedAccount \<or> e = Revert ''Invoice not in vault''
     \<or> e = Revert ''Invoice does not exist''"
proof (cases "sender = vault_owner (vault w) \<and> containsInvoice (vault w) i
                \<and> owners (invoiceNFT w) i \<noteq> 0")
  case True
  then show "removeInvoice w sender i reason = Inl e \<Longrightarrow> ?thesis"
    by (simp add: removeInvoice_eq)
next
  case False
  then show "removeInvoice w sender i reason = Inl e \<Longrightarrow> ?thesis"
    unfolding removeInvoice_def getInvoice_def by (auto split: if_splits)
qed

lemma removeInvoice_Inr:
  assumes "removeInvoice w sender i reason = Inr w'"
  shows "sender = vault_owner (vault w) \<and> containsInvoice (vault w) i \<and> owners (invoiceNFT w) i \<noteq> 0"
  using assms unfolding removeInvoice_def getInvoice_def by (auto split: if_splits)

text \<open>
  Claim C10. \<open>removeInvoice\<close> never fails with an arithmetic panic: called by the
  owner on an invoice that the vault contains, it goes through whatever the totals are.
  It subtracts the invoice's face value from \<open>totalInvoiceValue\<close> when the total is at
  least that large and otherwise leaves the total as it is, and likewise the discounted
  value from \<open>totalInvoiceDiscountedValue\<close>; neither total wraps around.
\<close>

theorem removeInvoice_totals:
  "removeInvoice w sender i reason \<noteq> Inl Panic_arithmetic
   \<and> (sender = vault_owner (vault w) \<and> containsInvoice (vault w) i \<and> owners (invoiceNFT w) i \<noteq> 0
        \<longrightarrow> \<not> isl (removeInvoice w sender i reason))
   \<and> (removeInvoice w sender i reason = Inr w' \<longrightarrow>
        unat (totalInvoiceValue (vault w')) =
          (if unat (faceValue (invoices (invoiceNFT w) i)) \<le> unat (totalInvoiceValue (vault w))
           then unat (totalInvoiceValue (vault w)) - unat (faceValue (invoices (invoiceNFT w) i))
           else unat (totalInvoiceValue (vault w)))
        \<and> unat (totalInvoiceDiscountedValue (vault w')) =
          (if unat (discountedValue (invoices (invoiceNFT w) i)) \<le> unat (totalInvoiceDiscountedValue (vault w))
           then unat (totalInvoiceDiscountedValue (vault w)) - unat (discountedValue (invoices (invoiceNFT w) i))
           else unat (totalInvoiceDiscountedValue (vault w)))
        \<and> \<not> containsInvoice (vault w') i \<and> \<not> isActive (allocations (vault w') i))"
proof (intro conjI impI)
  show "removeInvoice w sender i reason \<noteq> Inl Panic_arithmetic"
    using removeInvoice_Inl[of w sender i reason Panic_arithmetic] by auto
next
  assume "sender = vault_owner (vault w) \<and> containsInvoice (vault w) i \<and> owners (invoiceNFT w) i \<noteq> 0"
  then show "\<not> isl (removeInvoice w sender i reason)" by (simp add: removeInvoice_eq)
next
  assume a: "removeInvoice w sender i reason = Inr w'"
  from removeInvoice_Inr[OF a] have c: "sender = vault_owner (vault w)" "containsInvoice (vault w) i"
    "owners (invoiceNFT w) i \<noteq> 0" by simp_all
  note e = a[unfolded removeInvoice_eq[OF c]]
  from e show "unat (totalInvoiceValue (vault w')) =
          (if unat (faceValue (invoices (invoiceNFT w) i)) \<le> unat (totalInvoiceValue (vault w))
           then unat (totalInvoiceValue (vault w)) - unat (faceValue (invoices (invoiceNFT w) i))
           else unat (totalInvoiceValue (vault w)))"
    by (auto simp: word_le_nat_alt unat_sub)
  from e show "unat (totalInvoiceDiscountedValue (vault w')) =
          (if unat (discountedValue (invoices (invoiceNFT w) i)) \<le> unat (totalInvoiceDiscountedValue (vault w))
           then unat (totalInvoiceDiscountedValue (vault w)) - unat (discountedValue (invoices (invoiceNFT w) i))
           else unat (totalInvoiceDiscountedValue (vault w)))"
    by (auto simp: word_le_nat_alt unat_sub)
  from e show "\<not> containsInvoice (vault w') i" by auto
  from e show "\<not> isActive (allocations (vault w') i)" by auto
qed

lemma allocated_components:
  "vault_owner (vault (projr (addInvoice scenario_world 1 30 1))) = 1"
  "containsInvoice (vault (projr (addInvoice scenario_world 1 30 1))) 1"
  "totalInvoiceValue (vault (projr (addInvoice scenario_world 1 30 1))) = 100000"
  "totalInvoiceDiscountedValue (vault (projr (addInvoice scenario_world 1 30 1))) = 95000"
  "invoiceNFT (projr (addInvoice scenario_world 1 30 1)) = invoiceNFT scenario_world"
  by (simp_all add: scenario_addInvoice scenario_vault)

theorem removeInvoice_totals_witness:
  "unat (totalInvoiceValue (vault (projr
       (removeInvoice (projr (addInvoice scenario_world 1 30 1)) 1 1 ''paid'')))) = 0
   \<and> unat (totalInvoiceDiscountedValue (vault (projr
       (removeInvoice (projr (addInvoice scenario_world 1 30 1)) 1 1 ''paid'')))) = 0
   \<and> unat (totalInvoiceValue (vault (projr
       (removeInvoice ((projr (addInvoice scenario_world 1 30 1))
          \<lparr> vault := (vault (projr (addInvoice scenario_world 1 30 1)))
              \<lparr> totalInvoiceValue := 5, totalInvoiceDiscountedValue := 7 \<rparr> \<rparr>) 1 1 ''paid'')))) = 5
   \<and> unat (totalInvoiceDiscountedValue (vault (projr
       (removeInvoice ((projr (addInvoice scenario_world 1 30 1))
          \<lparr> vault := (vault (projr (addInvoice scenario_world 1 30 1)))
              \<lparr> totalInvoiceValue := 5, totalInvoiceDiscountedValue := 7 \<rparr> \<rparr>) 1 1 ''paid'')))) = 7"
proof -
  define w1 where "w1 = projr (addInvoice scenario_world 1 30 1)"
  define w2 where "w2 = w1\<lparr> vault := (vault w1)\<lparr> totalInvoiceValue := 5,
                            totalInvoiceDiscountedValue := 7 \<rparr> \<rparr>"
  have p1: "(1::address) = vault_owner (vault w1) \<and> containsInvoice (vault w1) 1
              \<and> owners (invoiceNFT w1) 1 \<noteq> 0"
    by (simp add: w1_def allocated_components scenario_invoice)
  have p2: "(1::address) = vault_owner (vault w2) \<and> containsInvoice (vault w2) 1
              \<and> owners (invoiceNFT w2) 1 \<noteq> 0"
    by (simp add: w2_def w1_def allocated_components scenario_invoice)
  have v1: "totalInvoiceValue (vault w1) = 100000" "totalInvoiceDiscountedValue (vault w1) = 95000"
    "faceValue (invoices (invoiceNFT w1) 1) = 100000"
    "discountedValue (invoices (invoiceNFT w1) 1) = 95000"
    by (simp_all add: w1_def allocated_components scenario_invoice)
  have v2: "totalInvoiceValue (vault w2) = 5" "totalInvoiceDiscountedValue (vault w2) = 7"
    "faceValue (invoices (invoiceNFT w2) 1) = 100000"
    "discountedValue (invoices (invoiceNFT w2) 1) = 95000"
    by (simp_all add: w2_def w1_def allocated_components scenario_invoice)
  from removeInvoice_totals[of w1 1 1 "''paid''"] p1
  have "\<not> isl (removeInvoice w1 1 1 ''paid'')" by blast
  then have e1: "removeInvoice w1 1 1 ''paid'' = Inr (projr (removeInvoice w1 1 1 ''paid''))"
    by simp
  from removeInvoice_totals[of w2 1 1 "''paid''"] p2
  have "\<not> isl (removeInvoice w2 1 1 ''paid'')" by blast
  then have e2: "removeInvoice w2 1 1 ''paid'' = Inr (projr (removeInvoice w2 1 1 ''paid''))"
    by simp
  from removeInvoice_totals[of w1 1 1 "''paid''" "projr (removeInvoice w1 1 1 ''paid'')"] e1
  have r1: "unat (totalInvoiceValue (vault (projr (removeInvoice w1 1 1 ''paid'')))) = 0"
    "unat (totalInvoiceDiscountedValue (vault (projr (removeInvoice w1 1 1 ''paid'')))) = 0"
    by (simp_all add: v1)
  from removeInvoice_totals[of w2 1 1 "''paid''" "projr (removeInvoice w2 1 1 ''paid'')"] e2
  have r2: "unat (totalInvoiceValue (vault (projr (removeInvoice w2 1 1 ''paid'')))) = 5"
    "unat (totalInvoiceDiscountedValue (vault (projr (removeInvoice w2 1 1 ''paid'')))) = 7"
    by (simp_all add: v2)
  from r1 r2 show ?thesis unfolding w2_def w1_def by simp
qed

section \<open>The compliance gate\<close>

lemma checked_add_no_Revert: "checked_add a b \<noteq> Inl (Revert s)"
  by (simp add: checked_add_def)

lemma mulDiv_no_Revert: "mulDiv x y d r \<noteq> Inl (Revert s)"
  by (simp add: mulDiv_def Let_def checked_add_def)

lemma convertToShares_no_Revert: "convertToShares w a r \<noteq> Inl (Revert s)"
  unfolding convertToShares_def
  by (auto simp: mulDiv_no_Revert checked_add_no_Revert split: sum.splits)

lemma convertToAssets_no_Revert: "convertToAssets w a r \<noteq> Inl (Revert s)"
  unfolding convertToAssets_def
  by (auto simp: mulDiv_no_Revert checked_add_no_Revert split: sum.splits)

lemma erc20_update_no_Revert: "erc20_update t a b v \<noteq> Inl (Revert s)"
  unfolding erc20_update_def
  by (auto simp: checked_add_no_Revert split: sum.splits if_splits)

lemma erc20_spendAllowance_no_Revert: "erc20_spendAllowance t a b v \<noteq> Inl (Revert s)"
  unfolding erc20_spendAllowance_def Let_def by simp

lemma erc20_transfer_no_Revert: "erc20_transfer t a b v \<noteq> Inl (Revert s)"
  unfolding erc20_transfer_def by (simp add: erc20_update_no_Revert)

lemma erc20_transferFrom_no_Revert: "erc20_transferFrom t sp a b v \<noteq> Inl (Revert s)"
  unfolding erc20_transferFrom_def
  by (auto simp: erc20_transfer_no_Revert erc20_spendAllowance_no_Revert split: sum.splits)

lemma erc20_mint_no_Revert: "erc20_mint t a v \<noteq> Inl (Revert s)"
  unfolding erc20_mint_def by (simp add: erc20_update_no_Revert)

lemma erc20_burn_no_Revert: "erc20_burn t a v \<noteq> Inl (Revert s)"
  unfolding erc20_burn_def by (simp add: erc20_update_no_Revert)

lemma erc4626_deposit_no_Revert: "erc4626_deposit w c r a sh \<noteq> Inl (Revert s)"
  unfolding erc4626_deposit_def
  by (auto simp: erc20_transferFrom_no_Revert erc20_mint_no_Revert split: sum.splits)

lemma erc4626_withdraw_no_Revert: "erc4626_withdraw w c r ow a sh \<noteq> Inl (Revert s)"
  unfolding erc4626_withdraw_def
  by (auto simp: erc20_spendAllowance_no_Revert erc20_burn_no_Revert erc20_transfer_no_Revert
      split: sum.splits if_splits)

lemma deposit_kyc:
  assumes "isVerified (kycGate w) now receiver"
  shows "deposit w sender now assets receiver \<noteq> Inl (Revert ''Receiver not KYC verified'')"
  unfolding deposit_def using assms
  by (auto simp: checked_add_no_Revert convertToShares_no_Revert erc4626_deposit_no_Revert
      split: sum.splits if_splits)

lemma mint_kyc:
  assumes "isVerified (kycGate w) now receiver"
  shows "mint w sender now sh receiver \<noteq> Inl (Revert ''Receiver not KYC verified'')"
  unfolding mint_def using assms
  by (auto simp: checked_add_no_Revert convertToAssets_no_Revert erc4626_deposit_no_Revert
      split: sum.splits if_splits)

lemma redeem_kyc:
  assumes "isVerified (kycGate w) now receiver"
  shows "redeem w sender now sh receiver ow \<noteq> Inl (Revert ''Receiver not KYC verified'')"
  unfolding redeem_def using assms
  by (auto simp: convertToAssets_no_Revert erc4626_withdraw_no_Revert
      split: sum.splits if_splits)

lemma withdraw_kyc:
  assumes "isVerified (kycGate w) now receiver"
  shows "withdraw w sender now assets receiver ow \<noteq> Inl (Revert ''Receiver not KYC verified'')"
  unfolding withdraw_def using assms
  by (auto simp: convertToAssets_no_Revert convertToShares_no_Revert erc4626_withdraw_no_Revert
      split: sum.splits if_splits)

text \<open>
  Claim C9. When \<open>kycRequired\<close> is false, \<open>isVerified\<close> is true of every address,
  verified or not, so that no \<open>deposit\<close>, \<open>mint\<close>, \<open>redeem\<close> or \<open>withdraw\<close> of
  the vault is rejected by the compliance check; and the admin of the gate can switch
  \<open>kycRequired\<close> off with \<open>setKYCRequired\<close>.
\<close>

theorem kycRequired_false_lets_everyone_through:
  "(\<not> kycRequired (kycGate w) \<longrightarrow>
      isVerified (kycGate w) now user
      \<and> deposit w sender now amount user \<noteq> Inl (Revert ''Receiver not KYC verified'')
      \<and> mint w sender now amount user \<noteq> Inl (Revert ''Receiver not KYC verified'')
      \<and> redeem w sender now amount user owner \<noteq> Inl (Revert ''Receiver not KYC verified'')
      \<and> withdraw w sender now amount user owner \<noteq> Inl (Revert ''Receiver not KYC verified''))
   \<and> (kyc_roles g KYC_DEFAULT_ADMIN_ROLE admin \<longrightarrow>
        setKYCRequired g admin False = Inr (g\<lparr> kycRequired := False \<rparr>))"
proof (intro conjI impI)
  assume "\<not> kycRequired (kycGate w)"
  then show v: "isVerified (kycGate w) now user" by (simp add: isVerified_def)
  from v show "deposit w sender now amount user \<noteq> Inl (Revert ''Receiver not KYC verified'')"
    by (rule deposit_kyc)
  from v show "mint w sender now amount user \<noteq> Inl (Revert ''Receiver not KYC verified'')"
    by (rule mint_kyc)
  from v show "redeem w sender now amount user owner \<noteq> Inl (Revert ''Receiver not KYC verified'')"
    by (rule redeem_kyc)
  from v show "withdraw w sender now amount user owner \<noteq> Inl (Revert ''Receiver not KYC verified'')"
    by (rule withdraw_kyc)
next
  assume "kyc_roles g KYC_DEFAULT_ADMIN_ROLE admin"
  then show "setKYCRequired g admin False = Inr (g\<lparr> kycRequired := False \<rparr>)"
    by (simp add: setKYCRequired_def)
qed

lemma scenario_deposit_unverified:
  "deposit scenario_world 5 30 100000000 9 = Inl (Revert ''Receiver not KYC verified'')"
  "\<not> isVerified (kycGate scenario_world) 30 9"
  unfolding deposit_def
  by (simp_all add: scenario_vault scenario_kycGate isVerified_def KYCGate_constructor_def
      zero_KYCData_def)

lemma scenario_mint_9:
  "erc20_mint \<lparr> balances = (\<lambda>_. 0), allowances = (\<lambda>_ _. 0), erc20_totalSupply = 0 \<rparr> 9 100000000
   = Inr \<lparr> balances = (\<lambda>_. 0)(9 := 100000000), allowances = (\<lambda>_ _. 0),
           erc20_totalSupply = 100000000 \<rparr>"
  by (simp add: erc20_mint_def erc20_update_def checked_add_def)

theorem kycRequired_false_lets_everyone_through_witness:
  "kycRequired (kycGate scenario_world)
   \<and> \<not> isVerified (kycGate scenario_world) 30 9
   \<and> deposit scenario_world 5 30 100000000 9 = Inl (Revert ''Receiver not KYC verified'')
   \<and> setKYCRequired (kycGate scenario_world) 1 False
        = Inr ((kycGate scenario_world)\<lparr> kycRequired := False \<rparr>)
   \<and> isVerified (kycGate (scenario_world\<lparr> kycGate :=
          (kycGate scenario_world)\<lparr> kycRequired := False \<rparr> \<rparr>)) 30 9
   \<and> \<not> isl (deposit (scenario_world\<lparr> kycGate :=
          (kycGate scenario_world)\<lparr> kycRequired := False \<rparr> \<rparr>) 5 30 100000000 9)"
proof -
  define w where "w = scenario_world\<lparr> kycGate := (kycGate scenario_world)\<lparr> kycRequired := False \<rparr> \<rparr>"
  have off: "\<not> kycRequired (kycGate w)" by (simp add: w_def)
  have adm: "kyc_roles (kycGate scenario_world) KYC_DEFAULT_ADMIN_ROLE 1"
    by (simp add: scenario_kycGate KYCGate_constructor_def)
  have on: "kycRequired (kycGate scenario_world)"
    by (simp add: scenario_kycGate KYCGate_constructor_def)
  note t = kycRequired_false_lets_everyone_through[of w 30 9 5 100000000 0
      "kycGate scenario_world" 1]
  from t off have v: "isVerified (kycGate w) 30 9" by blast
  from t adm have s: "setKYCRequired (kycGate scenario_world) 1 False
        = Inr ((kycGate scenario_world)\<lparr> kycRequired := False \<rparr>)" by blast
  have c: "asset w = scenario_asset" "vault w = vault scenario_world"
    by (simp_all add: w_def scenario_components)
  have cs: "convertToShares w 100000000 Floor = Inr 100000000"
    by (simp add: convertToShares_def totalSupply_def totalAssets_def c scenario_vault
      scenario_asset_def checked_add_def mulDiv_def)
  have d: "\<not> isl (deposit w 5 30 100000000 9)"
    unfolding deposit_def erc4626_deposit_def
    by (simp add: v cs c scenario_transferFrom scenario_vault scenario_mint_9)
  from on scenario_deposit_unverified v s d show ?thesis unfolding w_def by simp
qed

section \<open>The passes of the oracle service\<close>















end
